theory Spec2Isabelle
  imports Complex_Main
begin

section \<open>Python primitives used by the analytics engine\<close>

text \<open>
  The engine computes on Python floats. They are modelled as the real numbers: every
  statement below is about the exact arithmetic the code denotes, not about IEEE rounding.
  What Python raises is a value of \<open>py_error\<close>: a function that can raise returns
  \<open>py_error + 'a\<close>, with \<open>Inl\<close> for the exception.
\<close>

datatype py_error = ZeroDivisionError | ValueError | IndexError | KeyError | StopIteration

definition bind_err :: "py_error + 'a \<Rightarrow> ('a \<Rightarrow> py_error + 'b) \<Rightarrow> py_error + 'b" where
  "bind_err m f = (case m of Inl e \<Rightarrow> Inl e | Inr x \<Rightarrow> f x)"

definition py_div :: "real \<Rightarrow> real \<Rightarrow> py_error + real" where
  "py_div a b = (if b = 0 then Inl ZeroDivisionError else Inr (a / b))"

definition py_sqrt :: "real \<Rightarrow> py_error + real" where
  "py_sqrt x = (if x < 0 then Inl ValueError else Inr (sqrt x))"

text \<open>\<open>math.radians\<close> and \<open>math.atan2\<close>.\<close>

definition radians :: "real \<Rightarrow> real" where
  "radians x = x * pi / 180"

definition atan2 :: "real \<Rightarrow> real \<Rightarrow> real" where
  "atan2 y x =
     (if 0 < x then arctan (y / x)
      else if x < 0 then (if 0 \<le> y then arctan (y / x) + pi else arctan (y / x) - pi)
      else if 0 < y then pi / 2
      else if y < 0 then - (pi / 2)
      else 0)"

subsection \<open>Python list and dictionary primitives\<close>

text \<open>
  \<open>sum\<close> folds from the left starting at 0; \<open>min\<close> and \<open>max\<close> raise \<open>ValueError\<close> on
  an empty sequence and otherwise keep the first extremal element; \<open>xs[i]\<close> with an index
  counted from the end when negative; \<open>round(x, n)\<close> to \<open>n\<close> decimals, ties to even.
  \<open>list.sort\<close> and \<open>sorted\<close> are stable: \<open>sort_key\<close> is the stable insertion sort, and
  \<open>reverse=True\<close> keeps the order of equal keys, which is \<open>sort_key\<close> on the negated key.
\<close>

definition py_sum :: "real list \<Rightarrow> real" where
  "py_sum xs = foldl (+) 0 xs"

definition py_min :: "real list \<Rightarrow> py_error + real" where
  "py_min xs = (case xs of [] \<Rightarrow> Inl ValueError
                | x # rest \<Rightarrow> Inr (foldl (\<lambda>m y. if y < m then y else m) x rest))"

definition py_max :: "real list \<Rightarrow> py_error + real" where
  "py_max xs = (case xs of [] \<Rightarrow> Inl ValueError
                | x # rest \<Rightarrow> Inr (foldl (\<lambda>m y. if y > m then y else m) x rest))"

definition py_index :: "'a list \<Rightarrow> int \<Rightarrow> py_error + 'a" where
  "py_index xs i =
     (if 0 \<le> i \<and> i < int (length xs) then Inr (xs ! nat i)
      else if i < 0 \<and> - int (length xs) \<le> i then Inr (xs ! nat (int (length xs) + i))
      else Inl IndexError)"

definition py_round :: "real \<Rightarrow> nat \<Rightarrow> real" where
  "py_round x ndigits =
     (let s = x * 10 ^ ndigits;
          f = \<lfloor>s\<rfloor>;
          r = (if s - of_int f < 1 / 2 then f
               else if s - of_int f > 1 / 2 then f + 1
               else if even f then f else f + 1)
      in of_int r / 10 ^ ndigits)"

text \<open>
  A \<open>dict\<close> whose iteration order matters is an association list in insertion order.
  \<open>dict_upd k d f\<close> is \<^verbatim>\<open>if k not in m: m[k] = d\<close> followed by \<^verbatim>\<open>m[k] = f(m[k])\<close>;
  \<open>dict_set k v\<close> is the assignment \<^verbatim>\<open>m[k] = v\<close>.
\<close>

fun dict_upd :: "'k \<Rightarrow> 'v \<Rightarrow> ('v \<Rightarrow> 'v) \<Rightarrow> ('k \<times> 'v) list \<Rightarrow> ('k \<times> 'v) list" where
  "dict_upd k d f [] = [(k, f d)]"
| "dict_upd k d f ((k', v) # rest) =
     (if k' = k then (k', f v) # rest else (k', v) # dict_upd k d f rest)"

definition dict_set :: "'k \<Rightarrow> 'v \<Rightarrow> ('k \<times> 'v) list \<Rightarrow> ('k \<times> 'v) list" where
  "dict_set k v m = dict_upd k v (\<lambda>_. v) m"

text \<open>The values a serialised mapping (\<open>to_dict\<close>) holds.\<close>

datatype py_value = PyStr string | PyFloat real | PyInt int | PyNone

section \<open>Proximity engine (geospatial/proximity.py)\<close>

definition EARTH_RADIUS_KM :: real where
  "EARTH_RADIUS_KM = 6371"

record Coordinate =
  latitude :: real
  longitude :: real

definition validate :: "Coordinate \<Rightarrow> bool" where
  "validate c \<longleftrightarrow>
     -90 \<le> latitude c \<and> latitude c \<le> 90 \<and> -180 \<le> longitude c \<and> longitude c \<le> 180"

text \<open>The haversine term \<open>a\<close> of \<open>haversine_distance\<close>, before the two square roots.\<close>

definition haversine_a :: "real \<Rightarrow> real \<Rightarrow> real \<Rightarrow> real \<Rightarrow> real" where
  "haversine_a lat1 lon1 lat2 lon2 =
     (let lat1_rad = radians lat1;
          lat2_rad = radians lat2;
          delta_lat = radians (lat2 - lat1);
          delta_lon = radians (lon2 - lon1)
      in (sin (delta_lat / 2))\<^sup>2 + cos lat1_rad * cos lat2_rad * (sin (delta_lon / 2))\<^sup>2)"

definition haversine_distance :: "real \<Rightarrow> real \<Rightarrow> real \<Rightarrow> real \<Rightarrow> py_error + real" where
  "haversine_distance lat1 lon1 lat2 lon2 =
     (let a = haversine_a lat1 lon1 lat2 lon2 in
      bind_err (py_sqrt a) (\<lambda>sa.
      bind_err (py_sqrt (1 - a)) (\<lambda>sb.
      let c = 2 * atan2 sa sb in
      Inr (EARTH_RADIUS_KM * c))))"

text \<open>
  The division \<open>distance_km / max_distance_km\<close> is reached only when
  \<open>0 < distance_km < max_distance_km\<close>, so its divisor is never zero.
\<close>

definition calculate_proximity_score :: "real \<Rightarrow> real \<Rightarrow> real \<Rightarrow> real" where
  "calculate_proximity_score distance_km max_distance_km decay_factor =
     (if distance_km \<le> 0 then 100
      else if distance_km \<ge> max_distance_km then 0
      else
        let normalized_distance = distance_km / max_distance_km;
            score = 100 * exp (- decay_factor * normalized_distance)
        in max 0 (min 100 score))"

definition estimate_travel_time :: "real \<Rightarrow> real \<Rightarrow> py_error + real" where
  "estimate_travel_time distance_km average_speed_kmh =
     (if distance_km \<le> 0 then Inr 0
      else py_div distance_km average_speed_kmh)"

definition calculate_shipping_cost_factor :: "real \<Rightarrow> real \<Rightarrow> real \<Rightarrow> real" where
  "calculate_shipping_cost_factor distance_km base_cost_per_km min_factor =
     min_factor + (distance_km * base_cost_per_km)"

subsection \<open>Records of the proximity engine\<close>

text \<open>
  The input mappings (\<open>Dict[str, Any]\<close>) are records whose fields are optional: \<open>None\<close>
  is a key the mapping does not have, and every \<^verbatim>\<open>.get(key, default)\<close> of the source is a
  \<open>case\<close> on the field. Field values have the types of the input contract (identifiers
  are strings, coordinates and prices are numbers). Field names carry a prefix because
  the source's classes share them.
\<close>

record market_rec =
  mk_market_id :: "string option"
  mk_region_name :: "string option"
  mk_latitude :: "real option"
  mk_longitude :: "real option"

record vendor_rec =
  vn_vendor_id :: "string option"
  vn_vendor_name :: "string option"

record center_rec =
  dc_center_id :: "string option"
  dc_center_name :: "string option"
  dc_vendor_id :: "string option"
  dc_latitude :: "real option"
  dc_longitude :: "real option"

definition get_or :: "'a option \<Rightarrow> 'a \<Rightarrow> 'a" where
  "get_or field d = (case field of None \<Rightarrow> d | Some v \<Rightarrow> v)"

record ProximityScore =
  ps_vendor_id :: string
  ps_vendor_name :: string
  ps_center_id :: string
  ps_center_name :: string
  ps_market_id :: "string option"
  ps_distance_km :: real
  ps_proximity_score :: real
  ps_travel_time_estimate_hours :: "real option"
  ps_shipping_cost_factor :: "real option"

text \<open>\<open>float("inf")\<close> is the only non-real float the engine stores.\<close>

datatype distance = Km real | Infinity

record VendorCoverage =
  vc_vendor_id :: string
  vc_vendor_name :: string
  vc_market_id :: string
  vc_region_name :: string
  vc_nearest_center_distance_km :: distance
  vc_average_distance_km :: distance
  vc_coverage_score :: real
  vc_center_count :: nat
  vc_centers :: "ProximityScore list"

record ProximityAnalyzer =
  max_distance_km :: real
  decay_factor :: real
  average_speed_kmh :: real

text \<open>\<open>x if x else None\<close> on an optional float: \<open>None\<close> and \<open>0.0\<close> are both falsy.\<close>

definition round_if_truthy :: "real option \<Rightarrow> nat \<Rightarrow> py_value" where
  "round_if_truthy field ndigits =
     (case field of None \<Rightarrow> PyNone
      | Some v \<Rightarrow> if v \<noteq> 0 then PyFloat (py_round v ndigits) else PyNone)"

definition ProximityScore_to_dict :: "ProximityScore \<Rightarrow> (string \<times> py_value) list" where
  "ProximityScore_to_dict self =
     [(''vendor_id'', PyStr (ps_vendor_id self)),
      (''vendor_name'', PyStr (ps_vendor_name self)),
      (''center_id'', PyStr (ps_center_id self)),
      (''center_name'', PyStr (ps_center_name self)),
      (''market_id'', (case ps_market_id self of None \<Rightarrow> PyNone | Some m \<Rightarrow> PyStr m)),
      (''distance_km'', PyFloat (py_round (ps_distance_km self) 2)),
      (''proximity_score'', PyFloat (py_round (ps_proximity_score self) 2)),
      (''travel_time_estimate_hours'',
         round_if_truthy (ps_travel_time_estimate_hours self) 2),
      (''shipping_cost_factor'', round_if_truthy (ps_shipping_cost_factor self) 3)]"

subsection \<open>ProximityAnalyzer\<close>

definition calculate_proximity ::
  "ProximityAnalyzer \<Rightarrow> real \<Rightarrow> real \<Rightarrow> real \<Rightarrow> real \<Rightarrow> string \<Rightarrow> string \<Rightarrow> string \<Rightarrow> string
     \<Rightarrow> string option \<Rightarrow> py_error + ProximityScore" where
  "calculate_proximity self market_lat market_lon center_lat center_lon
       vendor_id vendor_name center_id center_name market_id =
     bind_err (haversine_distance market_lat market_lon center_lat center_lon) (\<lambda>distance.
     let score = calculate_proximity_score distance (max_distance_km self) (decay_factor self) in
     bind_err (estimate_travel_time distance (average_speed_kmh self)) (\<lambda>travel_time.
     let cost_factor = calculate_shipping_cost_factor distance 0.005 1 in
     Inr \<lparr>ps_vendor_id = vendor_id,
          ps_vendor_name = vendor_name,
          ps_center_id = center_id,
          ps_center_name = center_name,
          ps_market_id = market_id,
          ps_distance_km = distance,
          ps_proximity_score = score,
          ps_travel_time_estimate_hours = Some travel_time,
          ps_shipping_cost_factor = Some cost_factor\<rparr>))"

text \<open>A distribution center the loop of \<open>analyze_vendor_coverage\<close> does not skip.\<close>

definition owned_by :: "string \<Rightarrow> center_rec \<Rightarrow> bool" where
  "owned_by vendor_id dc \<longleftrightarrow> dc_vendor_id dc = Some vendor_id"

text \<open>The loop of \<open>analyze_vendor_coverage\<close> over the distribution centers.\<close>

fun collect_proximity_scores ::
  "ProximityAnalyzer \<Rightarrow> real \<Rightarrow> real \<Rightarrow> string \<Rightarrow> string \<Rightarrow> string \<Rightarrow> center_rec list
     \<Rightarrow> py_error + ProximityScore list" where
  "collect_proximity_scores self market_lat market_lon market_id vendor_id vendor_name [] = Inr []"
| "collect_proximity_scores self market_lat market_lon market_id vendor_id vendor_name (dc # dcs) =
     (if dc_vendor_id dc \<noteq> Some vendor_id
      then collect_proximity_scores self market_lat market_lon market_id vendor_id vendor_name dcs
      else
        bind_err (calculate_proximity self market_lat market_lon
                    (get_or (dc_latitude dc) 0) (get_or (dc_longitude dc) 0)
                    vendor_id vendor_name
                    (get_or (dc_center_id dc) '''') (get_or (dc_center_name dc) '''')
                    (Some market_id)) (\<lambda>score.
        bind_err (collect_proximity_scores self market_lat market_lon market_id
                    vendor_id vendor_name dcs) (\<lambda>rest.
        Inr (score # rest))))"

text \<open>
  Lines 316 to 321: the weights \<open>1 / (i + 1)\<close> and the weighted score of the sorted
  proximity scores. The list is non-empty there, so \<open>weight_sum \<ge> 1\<close>.
\<close>

definition coverage_weights :: "nat \<Rightarrow> real list" where
  "coverage_weights n = map (\<lambda>i. 1 / (real i + 1)) [0..<n]"

definition weighted_score :: "ProximityScore list \<Rightarrow> real" where
  "weighted_score proximity_scores =
     (let weights = coverage_weights (length proximity_scores);
          weight_sum = py_sum weights
      in py_sum (map (\<lambda>(ps, w). ps_proximity_score ps * w) (zip proximity_scores weights))
           / weight_sum)"

text \<open>
  Lines 294 to 333 of \<open>analyze_vendor_coverage\<close>: the coverage built from the proximity
  scores the loop collected.
\<close>

definition coverage_of_scores ::
  "string \<Rightarrow> string \<Rightarrow> string \<Rightarrow> string \<Rightarrow> ProximityScore list
     \<Rightarrow> py_error + VendorCoverage" where
  "coverage_of_scores vendor_id vendor_name market_id region_name proximity_scores =
     (if proximity_scores = [] then
        Inr \<lparr>vc_vendor_id = vendor_id,
             vc_vendor_name = vendor_name,
             vc_market_id = market_id,
             vc_region_name = region_name,
             vc_nearest_center_distance_km = Infinity,
             vc_average_distance_km = Infinity,
             vc_coverage_score = 0,
             vc_center_count = 0,
             vc_centers = []\<rparr>
      else
        let sorted_scores = sort_key ps_distance_km proximity_scores;
            distances = map ps_distance_km sorted_scores
        in
        bind_err (py_min distances) (\<lambda>nearest_distance.
        let avg_distance = py_sum distances / real (length distances) in
        Inr \<lparr>vc_vendor_id = vendor_id,
             vc_vendor_name = vendor_name,
             vc_market_id = market_id,
             vc_region_name = region_name,
             vc_nearest_center_distance_km = Km nearest_distance,
             vc_average_distance_km = Km avg_distance,
             vc_coverage_score = weighted_score sorted_scores,
             vc_center_count = length sorted_scores,
             vc_centers = sorted_scores\<rparr>))"

definition analyze_vendor_coverage ::
  "ProximityAnalyzer \<Rightarrow> market_rec \<Rightarrow> vendor_rec \<Rightarrow> center_rec list
     \<Rightarrow> py_error + VendorCoverage" where
  "analyze_vendor_coverage self market vendor distribution_centers =
     (let market_lat = get_or (mk_latitude market) 0;
          market_lon = get_or (mk_longitude market) 0;
          market_id = get_or (mk_market_id market) '''';
          region_name = get_or (mk_region_name market) '''';
          vendor_id = get_or (vn_vendor_id vendor) '''';
          vendor_name = get_or (vn_vendor_name vendor) ''''
      in
      bind_err (collect_proximity_scores self market_lat market_lon market_id
                  vendor_id vendor_name distribution_centers) (\<lambda>proximity_scores.
      coverage_of_scores vendor_id vendor_name market_id region_name proximity_scores))"

text \<open>The loop of \<open>analyze_market_vendors\<close> over the vendors, then the descending sort.\<close>

fun collect_coverages ::
  "ProximityAnalyzer \<Rightarrow> market_rec \<Rightarrow> center_rec list \<Rightarrow> vendor_rec list
     \<Rightarrow> py_error + VendorCoverage list" where
  "collect_coverages self market distribution_centers [] = Inr []"
| "collect_coverages self market distribution_centers (vendor # vendors) =
     bind_err (analyze_vendor_coverage self market vendor distribution_centers) (\<lambda>coverage.
     bind_err (collect_coverages self market distribution_centers vendors) (\<lambda>rest.
     Inr (if vc_center_count coverage > 0 then coverage # rest else rest)))"

definition analyze_market_vendors ::
  "ProximityAnalyzer \<Rightarrow> market_rec \<Rightarrow> vendor_rec list \<Rightarrow> center_rec list
     \<Rightarrow> py_error + VendorCoverage list" where
  "analyze_market_vendors self market vendors distribution_centers =
     bind_err (collect_coverages self market distribution_centers vendors) (\<lambda>coverages.
     Inr (sort_key (\<lambda>x. - vc_coverage_score x) coverages))"

section \<open>Variance and anomaly engine (geospatial/variance.py)\<close>

subsection \<open>Records\<close>

datatype AnomalyType =
  PRICE_SPIKE | PRICE_DROP | REGIONAL_VARIANCE | COMPETITOR_GAP | HISTORICAL_DEVIATION
  | CURRENCY_MISMATCH

fun AnomalyType_value :: "AnomalyType \<Rightarrow> string" where
  "AnomalyType_value PRICE_SPIKE = ''price_spike''"
| "AnomalyType_value PRICE_DROP = ''price_drop''"
| "AnomalyType_value REGIONAL_VARIANCE = ''regional_variance''"
| "AnomalyType_value COMPETITOR_GAP = ''competitor_gap''"
| "AnomalyType_value HISTORICAL_DEVIATION = ''historical_deviation''"
| "AnomalyType_value CURRENCY_MISMATCH = ''currency_mismatch''"

datatype Severity = LOW | MEDIUM | HIGH | CRITICAL

fun Severity_value :: "Severity \<Rightarrow> string" where
  "Severity_value LOW = ''low''"
| "Severity_value MEDIUM = ''medium''"
| "Severity_value HIGH = ''high''"
| "Severity_value CRITICAL = ''critical''"

text \<open>A pricing observation, the \<open>Dict[str, Any]\<close> the variance engine reads.\<close>

record pricing_rec =
  pr_sku_id :: "string option"
  pr_vendor_id :: "string option"
  pr_vendor_name :: "string option"
  pr_market_id :: "string option"
  pr_region_name :: "string option"
  pr_product_name :: "string option"
  pr_currency_code :: "string option"
  pr_unit_price :: "real option"

record PricingVariance =
  pv_sku_id :: string
  pv_product_name :: string
  pv_base_region_id :: string
  pv_base_region_name :: string
  pv_base_price :: real
  pv_currency_code :: string
  pv_comparison_region_id :: string
  pv_comparison_region_name :: string
  pv_comparison_price :: real
  pv_absolute_variance :: real
  pv_percentage_variance :: real
  pv_normalized_variance :: real

text \<open>
  What the engine takes from the Python runtime: the \<open>k\<close>-th \<open>str(uuid.uuid4())\<close> and
  \<open>datetime.now()\<close> (one of each per anomaly constructed), the fixed-point formatting
  \<^verbatim>\<open>f"{x:.nf}"\<close> and \<open>datetime.isoformat\<close>. A \<open>datetime\<close> is a count of microseconds.
\<close>

type_synonym datetime = int

record py_runtime =
  rt_uuid4 :: "nat \<Rightarrow> string"
  rt_now :: "nat \<Rightarrow> datetime"
  rt_format_fixed :: "nat \<Rightarrow> real \<Rightarrow> string"
  rt_isoformat :: "datetime \<Rightarrow> string"

record AnomalyFlag =
  af_anomaly_id :: string
  af_sku_id :: string
  af_product_name :: string
  af_vendor_id :: string
  af_vendor_name :: string
  af_market_id :: "string option"
  af_region_name :: "string option"
  af_anomaly_type :: AnomalyType
  af_severity :: Severity
  af_expected_price :: "real option"
  af_actual_price :: real
  af_variance_percentage :: real
  af_z_score :: "real option"
  af_description :: string
  af_detected_at :: datetime

definition opt_str :: "string option \<Rightarrow> py_value" where
  "opt_str field = (case field of None \<Rightarrow> PyNone | Some s \<Rightarrow> PyStr s)"

definition AnomalyFlag_to_dict :: "py_runtime \<Rightarrow> AnomalyFlag \<Rightarrow> (string \<times> py_value) list" where
  "AnomalyFlag_to_dict rt self =
     [(''anomaly_id'', PyStr (af_anomaly_id self)),
      (''sku_id'', PyStr (af_sku_id self)),
      (''product_name'', PyStr (af_product_name self)),
      (''vendor_id'', PyStr (af_vendor_id self)),
      (''vendor_name'', PyStr (af_vendor_name self)),
      (''market_id'', opt_str (af_market_id self)),
      (''region_name'', opt_str (af_region_name self)),
      (''anomaly_type'', PyStr (AnomalyType_value (af_anomaly_type self))),
      (''severity'', PyStr (Severity_value (af_severity self))),
      (''expected_price'', round_if_truthy (af_expected_price self) 2),
      (''actual_price'', PyFloat (py_round (af_actual_price self) 2)),
      (''variance_percentage'', PyFloat (py_round (af_variance_percentage self) 2)),
      (''z_score'', round_if_truthy (af_z_score self) 2),
      (''description'', PyStr (af_description self)),
      (''detected_at'', PyStr (rt_isoformat rt (af_detected_at self)))]"

subsection \<open>Statistics\<close>

record statistics =
  st_mean :: real
  st_median :: real
  st_std_dev :: real
  st_min :: real
  st_max :: real
  st_range :: real
  st_cv :: real

definition calculate_statistics :: "real list \<Rightarrow> py_error + statistics" where
  "calculate_statistics prices =
     (if prices = [] then
        Inr \<lparr>st_mean = 0, st_median = 0, st_std_dev = 0, st_min = 0, st_max = 0,
             st_range = 0, st_cv = 0\<rparr>
      else
        let n = length prices;
            sorted_prices = sort prices
        in
        bind_err (py_div (py_sum prices) (real n)) (\<lambda>mean.
        bind_err
          (if n mod 2 = 0 then
             bind_err (py_index sorted_prices (int n div 2 - 1)) (\<lambda>lo.
             bind_err (py_index sorted_prices (int n div 2)) (\<lambda>hi.
             py_div (lo + hi) 2))
           else py_index sorted_prices (int n div 2)) (\<lambda>median.
        bind_err
          (if n > 1 then
             bind_err (py_div (py_sum (map (\<lambda>p. (p - mean)\<^sup>2) prices)) (real n - 1)) (\<lambda>variance.
             py_sqrt variance)
           else Inr 0) (\<lambda>std_dev.
        bind_err (py_min prices) (\<lambda>min_price.
        bind_err (py_max prices) (\<lambda>max_price.
        let price_range = max_price - min_price in
        bind_err (if mean > 0 then py_div std_dev mean else Inr 0) (\<lambda>cv.
        Inr \<lparr>st_mean = mean, st_median = median, st_std_dev = std_dev, st_min = min_price,
             st_max = max_price, st_range = price_range, st_cv = cv\<rparr>)))))))"

text \<open>
  The median in the words of the specification: the middle element of the sorted list
  for odd \<open>n\<close>, the average of the two central elements for even \<open>n\<close>.
\<close>

definition median_of :: "real list \<Rightarrow> real" where
  "median_of prices =
     (let n = length prices; s = sort prices
      in if even n then (s ! (n div 2 - 1) + s ! (n div 2)) / 2 else s ! (n div 2))"

definition calculate_z_score :: "real \<Rightarrow> real \<Rightarrow> real \<Rightarrow> real" where
  "calculate_z_score v mean std_dev =
     (if std_dev = 0 then 0 else (v - mean) / std_dev)"

definition determine_severity :: "real option \<Rightarrow> real \<Rightarrow> Severity" where
  "determine_severity z_score variance_percentage =
     (let abs_z = (case z_score of None \<Rightarrow> 0 | Some z \<Rightarrow> if z \<noteq> 0 then \<bar>z\<bar> else 0);
          abs_var = \<bar>variance_percentage\<bar>
      in if abs_z \<ge> 4 \<or> abs_var \<ge> 50 then CRITICAL
         else if abs_z \<ge> 3 \<or> abs_var \<ge> 30 then HIGH
         else if abs_z \<ge> 2 \<or> abs_var \<ge> 15 then MEDIUM
         else LOW)"

subsection \<open>VarianceDetector\<close>

record VarianceDetector =
  z_score_threshold :: real
  variance_threshold_pct :: real
  regional_adjustments :: "string \<rightharpoonup> real"

definition VarianceDetector_init ::
  "real \<Rightarrow> real \<Rightarrow> (string \<rightharpoonup> real) option \<Rightarrow> VarianceDetector" where
  "VarianceDetector_init z v regional_adjustment_factors =
     \<lparr>z_score_threshold = z, variance_threshold_pct = v,
      regional_adjustments = get_or regional_adjustment_factors Map.empty\<rparr>"

text \<open>\<^verbatim>\<open>[r.get("unit_price", 0) for r in records if r.get("unit_price")]\<close>\<close>

definition truthy_price :: "pricing_rec \<Rightarrow> bool" where
  "truthy_price r = (case pr_unit_price r of None \<Rightarrow> False | Some p \<Rightarrow> p \<noteq> 0)"

definition priced :: "pricing_rec list \<Rightarrow> real list" where
  "priced records = map (\<lambda>r. get_or (pr_unit_price r) 0) (filter truthy_price records)"

text \<open>The grouping loop of \<open>calculate_regional_variance\<close>: by SKU, then by market.\<close>

definition group_sku_market ::
  "pricing_rec list \<Rightarrow> (string \<times> (string \<times> pricing_rec list) list) list" where
  "group_sku_market pricing_data =
     foldl (\<lambda>sku_prices record.
              let sku_id = get_or (pr_sku_id record) '''';
                  market_id = get_or (pr_market_id record) ''''
              in dict_upd sku_id [] (dict_upd market_id [] (\<lambda>l. l @ [record])) sku_prices)
       [] pricing_data"

text \<open>\<^verbatim>\<open>next(iter(next(iter(markets.values()))))\<close>\<close>

definition first_record_of :: "(string \<times> pricing_rec list) list \<Rightarrow> py_error + pricing_rec" where
  "first_record_of markets =
     (case markets of [] \<Rightarrow> Inl StopIteration
      | (_, records) # _ \<Rightarrow> (case records of [] \<Rightarrow> Inl StopIteration | r # _ \<Rightarrow> Inr r))"

text \<open>The loop building \<open>region_avg_prices\<close>.\<close>

fun region_averages ::
  "(string \<times> pricing_rec list) list \<Rightarrow> (string \<times> real \<times> string) list
     \<Rightarrow> py_error + (string \<times> real \<times> string) list" where
  "region_averages [] region_avg_prices = Inr region_avg_prices"
| "region_averages ((market_id, records) # rest) region_avg_prices =
     (let prices = priced records in
      if prices \<noteq> [] then
        bind_err (py_index records 0) (\<lambda>r0.
        let region_name = get_or (pr_region_name r0) market_id in
        bind_err (py_div (py_sum prices) (real (length prices))) (\<lambda>avg.
        region_averages rest (dict_set market_id (avg, region_name) region_avg_prices)))
      else region_averages rest region_avg_prices)"

text \<open>
  The choice of the base: the new value of the variable \<open>base_region_id\<close>, the base
  price and the base name.
\<close>

definition global_average_base ::
  "(string \<times> real \<times> string) list \<Rightarrow> py_error + (string \<times> real \<times> string)" where
  "global_average_base region_avg_prices =
     (let all_prices = map (\<lambda>(_, p, _). p) region_avg_prices in
      bind_err (py_div (py_sum all_prices) (real (length all_prices))) (\<lambda>base_price.
      Inr (''global_avg'', base_price, ''Global Average'')))"

definition determine_base ::
  "string option \<Rightarrow> (string \<times> real \<times> string) list \<Rightarrow> py_error + (string \<times> real \<times> string)" where
  "determine_base base_region_id region_avg_prices =
     (case base_region_id of
        None \<Rightarrow> global_average_base region_avg_prices
      | Some b \<Rightarrow>
          if b \<noteq> '''' \<and> b \<in> fst ` set region_avg_prices then
            (case map_of region_avg_prices b of
               None \<Rightarrow> Inl KeyError
             | Some (base_price, base_name) \<Rightarrow> Inr (b, base_price, base_name))
          else global_average_base region_avg_prices)"

text \<open>The loop appending one \<open>PricingVariance\<close> per region other than the base.\<close>

fun variance_rows ::
  "VarianceDetector \<Rightarrow> string \<Rightarrow> string \<Rightarrow> string \<Rightarrow> string \<Rightarrow> real \<Rightarrow> string
     \<Rightarrow> (string \<times> real \<times> string) list \<Rightarrow> PricingVariance list
     \<Rightarrow> py_error + PricingVariance list" where
  "variance_rows self sku_id product_name currency base_region_id base_price base_name []
       variances = Inr variances"
| "variance_rows self sku_id product_name currency base_region_id base_price base_name
       ((market_id, price, region_name) # rest) variances =
     (if market_id = base_region_id then
        variance_rows self sku_id product_name currency base_region_id base_price base_name
          rest variances
      else
        let absolute_var = price - base_price;
            pct_var = (if base_price > 0 then absolute_var / base_price * 100 else 0);
            adjustment = get_or (regional_adjustments self market_id) 1
        in
        bind_err (py_div pct_var adjustment) (\<lambda>normalized_var.
        variance_rows self sku_id product_name currency base_region_id base_price base_name
          rest
          (variances @
           [\<lparr>pv_sku_id = sku_id,
             pv_product_name = product_name,
             pv_base_region_id = base_region_id,
             pv_base_region_name = base_name,
             pv_base_price = base_price,
             pv_currency_code = currency,
             pv_comparison_region_id = market_id,
             pv_comparison_region_name = region_name,
             pv_comparison_price = price,
             pv_absolute_variance = absolute_var,
             pv_percentage_variance = pct_var,
             pv_normalized_variance = normalized_var\<rparr>])))"

text \<open>
  The loop over the SKUs. Its state is the list \<open>variances\<close> and the variable
  \<open>base_region_id\<close>, which the \<open>else\<close> branch of the base choice assigns.
\<close>

fun sku_variance_loop ::
  "VarianceDetector \<Rightarrow> (string \<times> (string \<times> pricing_rec list) list) list \<Rightarrow> string option
     \<Rightarrow> PricingVariance list \<Rightarrow> py_error + PricingVariance list" where
  "sku_variance_loop self [] base_region_id variances = Inr variances"
| "sku_variance_loop self ((sku_id, markets) # rest) base_region_id variances =
     (if length markets < 2 then sku_variance_loop self rest base_region_id variances
      else
        bind_err (first_record_of markets) (\<lambda>first_record.
        let product_name = get_or (pr_product_name first_record) sku_id;
            currency = get_or (pr_currency_code first_record) ''USD''
        in
        bind_err (region_averages markets []) (\<lambda>region_avg_prices.
        if length region_avg_prices < 2
        then sku_variance_loop self rest base_region_id variances
        else
          bind_err (determine_base base_region_id region_avg_prices)
            (\<lambda>(base_region_id', base_price, base_name).
          bind_err (variance_rows self sku_id product_name currency base_region_id'
                      base_price base_name region_avg_prices variances) (\<lambda>variances'.
          sku_variance_loop self rest (Some base_region_id') variances')))))"

definition calculate_regional_variance ::
  "VarianceDetector \<Rightarrow> pricing_rec list \<Rightarrow> string option \<Rightarrow> py_error + PricingVariance list" where
  "calculate_regional_variance self pricing_data base_region_id =
     sku_variance_loop self (group_sku_market pricing_data) base_region_id []"

subsection \<open>Anomaly detection\<close>

definition group_sku :: "pricing_rec list \<Rightarrow> (string \<times> pricing_rec list) list" where
  "group_sku pricing_data =
     foldl (\<lambda>sku_data record.
              dict_upd (get_or (pr_sku_id record) '''') [] (\<lambda>l. l @ [record]) sku_data)
       [] pricing_data"

text \<open>
  The loop over the records of one SKU. Each \<open>AnomalyFlag\<close> is appended as soon as it is
  constructed, so it is the \<open>length anomalies\<close>-th one the run constructs.
\<close>

fun observation_loop ::
  "VarianceDetector \<Rightarrow> py_runtime \<Rightarrow> string \<Rightarrow> string \<Rightarrow> statistics \<Rightarrow> pricing_rec list
     \<Rightarrow> AnomalyFlag list \<Rightarrow> AnomalyFlag list" where
  "observation_loop self rt sku_id product_name stats [] anomalies = anomalies"
| "observation_loop self rt sku_id product_name stats (record # rest) anomalies =
     (let price = get_or (pr_unit_price record) 0 in
      if price \<le> 0 then observation_loop self rt sku_id product_name stats rest anomalies
      else
        let vendor_id = get_or (pr_vendor_id record) '''';
            vendor_name = get_or (pr_vendor_name record) vendor_id;
            market_id = pr_market_id record;
            region_name = pr_region_name record;
            z_score = calculate_z_score price (st_mean stats) (st_std_dev stats);
            variance_pct =
              (if st_mean stats > 0 then (price - st_mean stats) / st_mean stats * 100 else 0)
        in
        if \<bar>z_score\<bar> \<ge> z_score_threshold self \<or> \<bar>variance_pct\<bar> \<ge> variance_threshold_pct self
        then
          let anomaly_type = (if z_score > 0 then PRICE_SPIKE else PRICE_DROP);
              description =
                (if z_score > 0 then
                   ''Price '' @ rt_format_fixed rt 2 price @ '' is ''
                     @ rt_format_fixed rt 1 variance_pct @ ''% above market average (''
                     @ rt_format_fixed rt 2 (st_mean stats) @ '')''
                 else
                   ''Price '' @ rt_format_fixed rt 2 price @ '' is ''
                     @ rt_format_fixed rt 1 \<bar>variance_pct\<bar> @ ''% below market average (''
                     @ rt_format_fixed rt 2 (st_mean stats) @ '')'');
              severity = determine_severity (Some z_score) variance_pct
          in
          observation_loop self rt sku_id product_name stats rest
            (anomalies @
             [\<lparr>af_anomaly_id = rt_uuid4 rt (length anomalies),
               af_sku_id = sku_id,
               af_product_name = product_name,
               af_vendor_id = vendor_id,
               af_vendor_name = vendor_name,
               af_market_id = market_id,
               af_region_name = region_name,
               af_anomaly_type = anomaly_type,
               af_severity = severity,
               af_expected_price = Some (st_mean stats),
               af_actual_price = price,
               af_variance_percentage = variance_pct,
               af_z_score = Some z_score,
               af_description = description,
               af_detected_at = rt_now rt (length anomalies)\<rparr>])
        else observation_loop self rt sku_id product_name stats rest anomalies)"

fun sku_anomaly_loop ::
  "VarianceDetector \<Rightarrow> py_runtime \<Rightarrow> (string \<times> pricing_rec list) list \<Rightarrow> AnomalyFlag list
     \<Rightarrow> py_error + AnomalyFlag list" where
  "sku_anomaly_loop self rt [] anomalies = Inr anomalies"
| "sku_anomaly_loop self rt ((sku_id, records) # rest) anomalies =
     (if records = [] then sku_anomaly_loop self rt rest anomalies
      else
        bind_err (py_index records 0) (\<lambda>r0.
        let product_name = get_or (pr_product_name r0) sku_id;
            prices = priced records
        in
        if length prices < 2 then sku_anomaly_loop self rt rest anomalies
        else
          bind_err (calculate_statistics prices) (\<lambda>stats.
          sku_anomaly_loop self rt rest
            (observation_loop self rt sku_id product_name stats records anomalies))))"

text \<open>The loop over the regional variances.\<close>

fun regional_anomaly_loop ::
  "VarianceDetector \<Rightarrow> py_runtime \<Rightarrow> PricingVariance list \<Rightarrow> AnomalyFlag list
     \<Rightarrow> AnomalyFlag list" where
  "regional_anomaly_loop self rt [] anomalies = anomalies"
| "regional_anomaly_loop self rt (variance # rest) anomalies =
     (if \<bar>pv_percentage_variance variance\<bar> \<ge> variance_threshold_pct self then
        let severity = determine_severity None (pv_percentage_variance variance) in
        if Severity_value severity \<in> set [''high'', ''critical''] then
          regional_anomaly_loop self rt rest
            (anomalies @
             [\<lparr>af_anomaly_id = rt_uuid4 rt (length anomalies),
               af_sku_id = pv_sku_id variance,
               af_product_name = pv_product_name variance,
               af_vendor_id = '''',
               af_vendor_name = ''Multiple Vendors'',
               af_market_id = Some (pv_comparison_region_id variance),
               af_region_name = Some (pv_comparison_region_name variance),
               af_anomaly_type = REGIONAL_VARIANCE,
               af_severity = severity,
               af_expected_price = Some (pv_base_price variance),
               af_actual_price = pv_comparison_price variance,
               af_variance_percentage = pv_percentage_variance variance,
               af_z_score = None,
               af_description =
                 ''Regional price variance: '' @ pv_comparison_region_name variance @ '' is ''
                   @ rt_format_fixed rt 1 (pv_percentage_variance variance)
                   @ ''% different from '' @ pv_base_region_name variance,
               af_detected_at = rt_now rt (length anomalies)\<rparr>])
        else regional_anomaly_loop self rt rest anomalies
      else regional_anomaly_loop self rt rest anomalies)"

fun severity_order :: "Severity \<Rightarrow> nat" where
  "severity_order CRITICAL = 0"
| "severity_order HIGH = 1"
| "severity_order MEDIUM = 2"
| "severity_order LOW = 3"

text \<open>
  \<open>discovered_anomalies\<close> is the list \<open>anomalies\<close> of \<open>detect_anomalies\<close> as it stands
  before the final sort, in the order of discovery.
\<close>

definition discovered_anomalies ::
  "VarianceDetector \<Rightarrow> py_runtime \<Rightarrow> pricing_rec list \<Rightarrow> pricing_rec list option
     \<Rightarrow> py_error + AnomalyFlag list" where
  "discovered_anomalies self rt pricing_data historical_data =
     bind_err (sku_anomaly_loop self rt (group_sku pricing_data) []) (\<lambda>anomalies.
     bind_err (calculate_regional_variance self pricing_data None) (\<lambda>regional_variances.
     Inr (regional_anomaly_loop self rt regional_variances anomalies)))"

definition detect_anomalies ::
  "VarianceDetector \<Rightarrow> py_runtime \<Rightarrow> pricing_rec list \<Rightarrow> pricing_rec list option
     \<Rightarrow> py_error + AnomalyFlag list" where
  "detect_anomalies self rt pricing_data historical_data =
     bind_err (discovered_anomalies self rt pricing_data historical_data) (\<lambda>anomalies.
     Inr (sort_key (\<lambda>x. severity_order (af_severity x)) anomalies))"

text \<open>
  What the specification requires of an anomaly of type \<open>regional_variance\<close>: its
  variance reaches the threshold and its severity is high or critical.
\<close>

definition regional_ok :: "VarianceDetector \<Rightarrow> AnomalyFlag \<Rightarrow> bool" where
  "regional_ok self a \<longleftrightarrow>
     (af_anomaly_type a = REGIONAL_VARIANCE \<longrightarrow>
        \<bar>af_variance_percentage a\<bar> \<ge> variance_threshold_pct self
        \<and> (af_severity a = HIGH \<or> af_severity a = CRITICAL))"

section \<open>Benchmarking engine (geospatial/benchmarking.py)\<close>

definition calculate_competitiveness_score ::
  "real \<Rightarrow> real \<Rightarrow> real \<Rightarrow> real \<Rightarrow> py_error + real" where
  "calculate_competitiveness_score vendor_price min_price max_price avg_price =
     (if max_price = min_price then Inr 50
      else
        let price_range = max_price - min_price in
        bind_err (py_div (vendor_price - min_price) price_range) (\<lambda>normalized_position.
        let score = (1 - normalized_position) * 100 in
        bind_err
          (if vendor_price < avg_price then
             bind_err (py_div (avg_price - vendor_price) avg_price) (\<lambda>q.
             let below_avg_bonus = q * 20 in
             Inr (min 100 (score + below_avg_bonus)))
           else Inr score) (\<lambda>score.
        Inr (max 0 (min 100 score)))))"

section \<open>Concrete inputs\<close>

text \<open>The analyzer with the default parameters of \<open>ProximityAnalyzer.__init__\<close>.\<close>

definition default_analyzer :: ProximityAnalyzer where
  "default_analyzer = \<lparr>max_distance_km = 500, decay_factor = 2, average_speed_kmh = 60\<rparr>"

definition example_runtime :: py_runtime where
  "example_runtime =
     \<lparr>rt_uuid4 = (\<lambda>k. ''id''), rt_now = (\<lambda>k. 0),
      rt_format_fixed = (\<lambda>n x. ''0.0''), rt_isoformat = (\<lambda>t. ''1970-01-01T00:00:00'')\<rparr>"

definition example_flag :: AnomalyFlag where
  "example_flag =
     \<lparr>af_anomaly_id = ''id'', af_sku_id = ''SKU-1'', af_product_name = ''Product'',
      af_vendor_id = ''V-1'', af_vendor_name = ''Vendor'', af_market_id = Some ''M-1'',
      af_region_name = Some ''East'', af_anomaly_type = PRICE_DROP, af_severity = LOW,
      af_expected_price = Some 0, af_actual_price = 10, af_variance_percentage = 0,
      af_z_score = Some 0, af_description = '''', af_detected_at = 0\<rparr>"

definition example_score :: ProximityScore where
  "example_score =
     \<lparr>ps_vendor_id = ''V'', ps_vendor_name = ''Vendor'', ps_center_id = ''DC'',
      ps_center_name = ''Center'', ps_market_id = Some ''M'', ps_distance_km = 0,
      ps_proximity_score = 100, ps_travel_time_estimate_hours = Some 0,
      ps_shipping_cost_factor = Some 1\<rparr>"

text \<open>A pricing observation with the keys the tests of the repository give one.\<close>

definition observation :: "string \<Rightarrow> string \<Rightarrow> string \<Rightarrow> real \<Rightarrow> pricing_rec" where
  "observation sku vendor market price =
     \<lparr>pr_sku_id = Some sku, pr_vendor_id = Some vendor, pr_vendor_name = None,
      pr_market_id = Some market, pr_region_name = None, pr_product_name = None,
      pr_currency_code = None, pr_unit_price = Some price\<rparr>"

text \<open>\<open>VarianceDetector()\<close> with the default thresholds and no adjustment factors.\<close>

definition default_detector :: VarianceDetector where
  "default_detector = VarianceDetector_init 2 15 None"

text \<open>
  Two SKUs: \<open>SKU-A\<close> is priced in \<open>MKT-2\<close> and \<open>MKT-3\<close> only, \<open>SKU-B\<close> in \<open>MKT-1\<close> and
  \<open>MKT-2\<close>.
\<close>

definition base_region_pricing :: "pricing_rec list" where
  "base_region_pricing =
     [observation ''SKU-A'' ''V-1'' ''MKT-2'' 10,
      observation ''SKU-A'' ''V-1'' ''MKT-3'' 20,
      observation ''SKU-B'' ''V-1'' ''MKT-1'' 10,
      observation ''SKU-B'' ''V-1'' ''MKT-2'' 30]"

definition variance_summary :: "PricingVariance \<Rightarrow> string \<times> string \<times> real \<times> string" where
  "variance_summary v =
     (pv_sku_id v, pv_base_region_id v, pv_base_price v, pv_comparison_region_id v)"

text \<open>
  \<open>SKU-B\<close> at 100, 120 and 140 and \<open>SKU-A\<close> at 10, 20 and 30, each in three markets.
\<close>

definition anomaly_pricing :: "pricing_rec list" where
  "anomaly_pricing =
     [observation ''SKU-B'' ''V-1'' ''MKT-1'' 100,
      observation ''SKU-B'' ''V-2'' ''MKT-2'' 120,
      observation ''SKU-B'' ''V-3'' ''MKT-3'' 140,
      observation ''SKU-A'' ''V-1'' ''MKT-1'' 10,
      observation ''SKU-A'' ''V-2'' ''MKT-2'' 20,
      observation ''SKU-A'' ''V-3'' ''MKT-3'' 30]"

definition anomaly_summary ::
  "AnomalyFlag \<Rightarrow> string \<times> string option \<times> AnomalyType \<times> Severity \<times> real" where
  "anomaly_summary a =
     (af_sku_id a, af_market_id a, af_anomaly_type a, af_severity a, af_variance_percentage a)"

text \<open>
  A market at \<open>(0, 0)\<close>; vendor \<open>V-A\<close> with a center at the market and one at the
  antipode \<open>(0, 180)\<close>, vendor \<open>V-B\<close> with a center at the antipode only, vendor \<open>V-C\<close>
  with none.
\<close>

definition example_market :: market_rec where
  "example_market =
     \<lparr>mk_market_id = Some ''M'', mk_region_name = Some ''Origin'',
      mk_latitude = Some 0, mk_longitude = Some 0\<rparr>"

definition vendor_a :: vendor_rec where
  "vendor_a = \<lparr>vn_vendor_id = Some ''V-A'', vn_vendor_name = Some ''A''\<rparr>"

definition vendor_b :: vendor_rec where
  "vendor_b = \<lparr>vn_vendor_id = Some ''V-B'', vn_vendor_name = Some ''B''\<rparr>"

definition vendor_c :: vendor_rec where
  "vendor_c = \<lparr>vn_vendor_id = Some ''V-C'', vn_vendor_name = Some ''C''\<rparr>"

definition center_a_near :: center_rec where
  "center_a_near =
     \<lparr>dc_center_id = Some ''DC-1'', dc_center_name = Some ''Near'',
      dc_vendor_id = Some ''V-A'', dc_latitude = Some 0, dc_longitude = Some 0\<rparr>"

definition center_a_far :: center_rec where
  "center_a_far =
     \<lparr>dc_center_id = Some ''DC-2'', dc_center_name = Some ''Far'',
      dc_vendor_id = Some ''V-A'', dc_latitude = Some 0, dc_longitude = Some 180\<rparr>"

definition center_b_far :: center_rec where
  "center_b_far =
     \<lparr>dc_center_id = Some ''DC-3'', dc_center_name = Some ''Far'',
      dc_vendor_id = Some ''V-B'', dc_latitude = Some 0, dc_longitude = Some 180\<rparr>"

definition coverage_summary :: "VendorCoverage \<Rightarrow> string \<times> nat \<times> distance \<times> real" where
  "coverage_summary c =
     (vc_vendor_id c, vc_center_count c, vc_nearest_center_distance_km c, vc_coverage_score c)"

text \<open>A market and a distribution center at latitude 91, outside \<open>[-90, 90]\<close>.\<close>

definition market_out_of_range :: market_rec where
  "market_out_of_range =
     \<lparr>mk_market_id = Some ''M-X'', mk_region_name = Some ''Nowhere'',
      mk_latitude = Some 91, mk_longitude = Some 0\<rparr>"

definition center_out_of_range :: center_rec where
  "center_out_of_range =
     \<lparr>dc_center_id = Some ''DC-X'', dc_center_name = Some ''Nowhere'',
      dc_vendor_id = Some ''V-A'', dc_latitude = Some 91, dc_longitude = Some 0\<rparr>"

definition out_of_range_score :: ProximityScore where
  "out_of_range_score =
     \<lparr>ps_vendor_id = ''V-A'', ps_vendor_name = ''A'', ps_center_id = ''DC-X'',
      ps_center_name = ''Nowhere'', ps_market_id = Some ''M-X'', ps_distance_km = 0,
      ps_proximity_score = 100, ps_travel_time_estimate_hours = Some 0,
      ps_shipping_cost_factor = Some 1\<rparr>"

section \<open>Properties of the proximity primitives\<close>

lemma proximity_score_exp_form:
  assumes "0 < M" "0 < k" "0 < d" "d < M"
  shows "calculate_proximity_score d M k = 100 * exp (- k * (d / M))"
proof -
  have "0 < k * (d / M)" using assms by (intro mult_pos_pos divide_pos_pos)
  then have "exp (- k * (d / M)) \<le> 1" by (subst exp_le_one_iff) simp
  moreover have "0 \<le> exp (- k * (d / M))" by (rule exp_ge_zero)
  ultimately have "max 0 (min 100 (100 * exp (- k * (d / M)))) = 100 * exp (- k * (d / M))"
    by (simp add: min_def max_def)
  then show ?thesis
    using assms by (simp add: calculate_proximity_score_def Let_def)
qed

text \<open>
  C5: for \<open>M > 0\<close> and \<open>k > 0\<close>, \<open>calculate_proximity_score\<close> is exactly 100 at
  distances \<open>\<le> 0\<close>, exactly 0 at distances \<open>\<ge> M\<close>, and \<open>100 * exp (-k * d / M)\<close>
  strictly between; the result lies in \<open>[0, 100]\<close> and is strictly decreasing in the
  distance on the open interval \<open>(0, M)\<close>.
\<close>

theorem calculate_proximity_score_spec:
  assumes "0 < M" and "0 < k"
  shows "(d \<le> 0 \<longrightarrow> calculate_proximity_score d M k = 100)
       \<and> (M \<le> d \<longrightarrow> calculate_proximity_score d M k = 0)
       \<and> (0 < d \<and> d < M \<longrightarrow> calculate_proximity_score d M k = 100 * exp (- k * d / M))
       \<and> 0 \<le> calculate_proximity_score d M k
       \<and> calculate_proximity_score d M k \<le> 100
       \<and> (0 < d \<and> d < d' \<and> d' < M \<longrightarrow>
            calculate_proximity_score d' M k < calculate_proximity_score d M k)"
proof (intro conjI impI)
  show "calculate_proximity_score d M k = 100" if "d \<le> 0"
    using that by (simp add: calculate_proximity_score_def)
  show "calculate_proximity_score d M k = 0" if "M \<le> d"
    using that assms by (simp add: calculate_proximity_score_def)
  show "calculate_proximity_score d M k = 100 * exp (- k * d / M)" if "0 < d \<and> d < M"
    using that assms proximity_score_exp_form [of M k d] by simp
  show "0 \<le> calculate_proximity_score d M k"
    by (simp add: calculate_proximity_score_def Let_def)
  show "calculate_proximity_score d M k \<le> 100"
    by (simp add: calculate_proximity_score_def Let_def)
  show "calculate_proximity_score d' M k < calculate_proximity_score d M k"
    if h: "0 < d \<and> d < d' \<and> d' < M"
  proof -
    have "d / M < d' / M" using h assms by (simp add: divide_strict_right_mono)
    then have "k * (d / M) < k * (d' / M)" using assms by (intro mult_strict_left_mono)
    then have "exp (- k * (d' / M)) < exp (- k * (d / M))" by (subst exp_less_cancel_iff) simp
    moreover have "calculate_proximity_score d M k = 100 * exp (- k * (d / M))"
      using h assms by (intro proximity_score_exp_form) auto
    moreover have "calculate_proximity_score d' M k = 100 * exp (- k * (d' / M))"
      using h assms by (intro proximity_score_exp_form) auto
    ultimately show ?thesis by simp
  qed
qed

theorem calculate_proximity_score_spec_witness:
  "(0::real) < 500 \<and> (0::real) < 2
   \<and> calculate_proximity_score 0 500 2 = 100
   \<and> calculate_proximity_score 500 500 2 = 0
   \<and> calculate_proximity_score 250 500 2 = 100 * exp (- 1)
   \<and> calculate_proximity_score 250 500 2 < calculate_proximity_score 125 500 2"
proof -
  have h: "(0::real) < 500" "(0::real) < 2" by simp_all
  show ?thesis
    using calculate_proximity_score_spec [OF h, of 0 125]
          calculate_proximity_score_spec [OF h, of 500 125]
          calculate_proximity_score_spec [OF h, of 250 300]
          calculate_proximity_score_spec [OF h, of 125 250]
    by simp
qed

subsection \<open>The square roots of the haversine formula in exact arithmetic\<close>

text \<open>
  Over the reals the term \<open>a\<close> lies in \<open>[0, 1]\<close>, so neither \<open>math.sqrt\<close> of
  \<open>haversine_distance\<close> raises in this model. That is a fact of exact arithmetic only:
  in IEEE doubles rounding can leave \<open>a\<close> slightly above 1 at nearly antipodal points,
  and \<open>math.sqrt(1 - a)\<close> then raises \<open>ValueError\<close>. The lemmas \<open>haversine_a_bounds\<close> and
  \<open>haversine_distance_returns\<close>, and the lemmas below whose names end in \<open>_returns\<close> and
  that rest on them, speak of the exact-arithmetic model; the theorems for C1 to C10 do
  not use them and are stated for the runs that return.
\<close>

lemma sin_half_sq: "(sin (x / 2))\<^sup>2 = (1 - cos x) / 2" for x :: real
proof -
  have "cos x = cos (2 * (x / 2))" by simp
  also have "\<dots> = 1 - 2 * (sin (x / 2))\<^sup>2" by (rule cos_double_sin)
  finally show ?thesis by simp
qed

lemma haversine_a_bounds:
  "0 \<le> haversine_a lat1 lon1 lat2 lon2 \<and> haversine_a lat1 lon1 lat2 lon2 \<le> 1"
proof -
  define p where "p = radians lat1"
  define q where "q = radians lat2"
  define t where "t = (sin (radians (lon2 - lon1) / 2))\<^sup>2"
  define A where "A = (sin ((q - p) / 2))\<^sup>2"
  define c where "c = cos p * cos q"
  have rd: "radians (lat2 - lat1) = q - p"
    by (simp add: radians_def p_def q_def algebra_simps diff_divide_distrib)
  have a_eq: "haversine_a lat1 lon1 lat2 lon2 = A + c * t"
    by (simp add: haversine_a_def Let_def rd A_def c_def t_def p_def q_def)
  have t0: "0 \<le> t" by (simp add: t_def)
  have t1: "t \<le> 1" unfolding t_def by (simp add: abs_square_le_1 )
  have A0: "0 \<le> A" by (simp add: A_def)
  have A1: "A \<le> 1" unfolding A_def by (simp add: abs_square_le_1)
  have Ac: "A + c = (1 + cos (p + q)) / 2"
    unfolding A_def c_def sin_half_sq by (simp add: cos_diff cos_add field_simps)
  have "0 \<le> 1 + cos (p + q)" using cos_ge_minus_one [of "p + q"] by linarith
  then have Ac0: "0 \<le> A + c" unfolding Ac by simp
  have Ac1: "A + c \<le> 1" unfolding Ac using cos_le_one [of "p + q"] by simp
  have lo: "0 \<le> A + c * t"
  proof (cases "0 \<le> c")
    case True
    then have "0 \<le> c * t" using t0 by simp
    then show ?thesis using A0 by simp
  next
    case False
    then have "c * 1 \<le> c * t" using t1 by (intro mult_left_mono_neg) auto
    then show ?thesis using Ac0 by simp
  qed
  have hi: "A + c * t \<le> 1"
  proof (cases "0 \<le> c")
    case True
    then have "c * t \<le> c * 1" using t1 by (intro mult_left_mono) auto
    then show ?thesis using Ac1 by simp
  next
    case False
    then have "c * t \<le> 0" using t0 by (simp add: mult_le_0_iff)
    then show ?thesis using A1 by simp
  qed
  show ?thesis using lo hi a_eq by simp
qed

lemma atan2_nonneg: "0 \<le> y \<Longrightarrow> 0 \<le> x \<Longrightarrow> 0 \<le> atan2 y x"
  by (auto simp: atan2_def)

lemma haversine_distance_returns:
  "\<exists>d. haversine_distance lat1 lon1 lat2 lon2 = Inr d \<and> 0 \<le> d"
  using haversine_a_bounds [of lat1 lon1 lat2 lon2]
  by (simp add: haversine_distance_def Let_def bind_err_def py_sqrt_def EARTH_RADIUS_KM_def
      atan2_nonneg)

lemma haversine_same_point: "haversine_distance lat lon lat lon = Inr 0"
  by (simp add: haversine_distance_def haversine_a_def Let_def bind_err_def py_sqrt_def
      EARTH_RADIUS_KM_def atan2_def radians_def)

lemma haversine_antipodal: "haversine_distance 0 0 0 180 = Inr (6371 * pi)"
  by (simp add: haversine_distance_def haversine_a_def Let_def bind_err_def py_sqrt_def
      EARTH_RADIUS_KM_def atan2_def radians_def)

section \<open>Claims about the proximity primitives\<close>

text \<open>
  C4, at the input \<open>distance_km = -5\<close>, \<open>base_cost_per_km = 0.005\<close>, \<open>min_factor = 1\<close>:
  \<open>calculate_shipping_cost_factor\<close> returns \<open>0.975\<close>, which is below \<open>min_factor\<close>. The
  function adds \<open>distance_km * base_cost_per_km\<close> to \<open>min_factor\<close> and applies no floor.
\<close>

theorem shipping_cost_factor_below_min_factor:
  "calculate_shipping_cost_factor (-5) 0.005 1 = 0.975
   \<and> calculate_shipping_cost_factor (-5) 0.005 1 < 1"
  by (simp add: calculate_shipping_cost_factor_def)

lemma shipping_cost_factor_floor_when_nonneg:
  "0 \<le> distance_km * base_cost_per_km \<Longrightarrow>
     min_factor \<le> calculate_shipping_cost_factor distance_km base_cost_per_km min_factor"
  by (simp add: calculate_shipping_cost_factor_def)

text \<open>
  C3, as stated, fails: the coordinate \<open>(91, 0)\<close> is out of range, yet
  \<open>haversine_distance\<close> computes a distance from it, and the negative distance \<open>-5\<close> gives
  the proximity score 100 and the travel time 0 instead of an error.
\<close>

theorem invalid_input_not_reported:
  "\<not> validate \<lparr>latitude = 91, longitude = 0\<rparr>
   \<and> haversine_distance 91 0 91 0 = Inr 0
   \<and> calculate_proximity_score (-5) 500 2 = 100
   \<and> estimate_travel_time (-5) 60 = Inr 0"
  by (simp add: validate_def haversine_same_point calculate_proximity_score_def
      estimate_travel_time_def)

section \<open>Claims about the competitiveness score\<close>

lemma competitiveness_cases:
  "calculate_competitiveness_score p mn mx av =
     (if mx = mn then Inr 50
      else if p < av then
        (if av = 0 then Inl ZeroDivisionError
         else Inr (max 0 (min 100
                (min 100 ((1 - (p - mn) / (mx - mn)) * 100 + (av - p) / av * 20)))))
      else Inr (max 0 (min 100 ((1 - (p - mn) / (mx - mn)) * 100))))"
  by (simp add: calculate_competitiveness_score_def Let_def bind_err_def py_div_def)

text \<open>
  Prices are non-negative by the input contract: the ingestion validator rejects a
  negative \<open>unit_price\<close>, and \<open>compare_vendor_to_benchmark\<close>, the caller of the score,
  skips every record with \<open>vendor_price <= 0\<close>. Outside that contract the below-average
  bonus can be negative or divide by \<open>avg_price = 0\<close>: with \<open>min = -10\<close>, \<open>avg = -1\<close>,
  \<open>max = 0\<close> the scores at \<open>min\<close> and at \<open>max\<close> are both 0, and with \<open>min = -1\<close>,
  \<open>avg = 0\<close>, \<open>max = 1\<close> the score at \<open>min\<close> raises \<open>ZeroDivisionError\<close>.
\<close>

lemma competitiveness_negative_prices:
  "(-10::real) < 0 \<and> (-10::real) \<le> -1 \<and> (-1::real) \<le> 0
   \<and> calculate_competitiveness_score (-10) (-10) 0 (-1) = Inr 0
   \<and> calculate_competitiveness_score 0 (-10) 0 (-1) = Inr 0
   \<and> calculate_competitiveness_score (-1) (-1) 1 0 = Inl ZeroDivisionError"
  by (simp add: competitiveness_cases)

text \<open>
  C8: for all prices of the input contract, \<open>0 \<le> min < max\<close> and \<open>min \<le> avg \<le> max\<close>,
  the score at \<open>price = min\<close> (it is 100) is strictly greater than the score at
  \<open>price = max\<close> (it is 0). For every input, a returned score lies in \<open>[0, 100]\<close> and is
  exactly 50 when \<open>min = max\<close>; a score is returned unless \<open>min \<noteq> max\<close>, \<open>avg = 0\<close> and
  the vendor price is negative.
\<close>

theorem competitiveness_score_spec:
  "(0 \<le> mn \<and> mn < mx \<and> mn \<le> av \<and> av \<le> mx \<longrightarrow>
      (\<exists>s_min s_max.
         calculate_competitiveness_score mn mn mx av = Inr s_min
         \<and> calculate_competitiveness_score mx mn mx av = Inr s_max
         \<and> s_max < s_min \<and> s_min = 100 \<and> s_max = 0))
   \<and> (case calculate_competitiveness_score p lo hi a of
         Inr s \<Rightarrow> 0 \<le> s \<and> s \<le> 100 \<and> (lo = hi \<longrightarrow> s = 50)
       | Inl e \<Rightarrow> e = ZeroDivisionError \<and> lo \<noteq> hi \<and> a = 0 \<and> p < 0)"
proof (intro conjI impI)
  assume h: "0 \<le> mn \<and> mn < mx \<and> mn \<le> av \<and> av \<le> mx"
  have top: "calculate_competitiveness_score mn mn mx av = Inr 100"
  proof (cases "mn < av")
    case True
    then have "0 < av" using h by simp
    then have "0 \<le> (av - mn) / av" using True by simp
    then show ?thesis using h True \<open>0 < av\<close> by (simp add: competitiveness_cases)
  next
    case False
    then show ?thesis using h by (simp add: competitiveness_cases)
  qed
  have bottom: "calculate_competitiveness_score mx mn mx av = Inr 0"
    using h by (simp add: competitiveness_cases)
  show "\<exists>s_min s_max.
         calculate_competitiveness_score mn mn mx av = Inr s_min
         \<and> calculate_competitiveness_score mx mn mx av = Inr s_max
         \<and> s_max < s_min \<and> s_min = 100 \<and> s_max = 0"
    using top bottom by simp
next
  show "case calculate_competitiveness_score p lo hi a of
         Inr s \<Rightarrow> 0 \<le> s \<and> s \<le> 100 \<and> (lo = hi \<longrightarrow> s = 50)
       | Inl e \<Rightarrow> e = ZeroDivisionError \<and> lo \<noteq> hi \<and> a = 0 \<and> p < 0"
    by (simp add: competitiveness_cases)
qed

theorem competitiveness_score_spec_witness:
  "(0::real) \<le> 50 \<and> (50::real) < 100 \<and> (50::real) \<le> 75 \<and> (75::real) \<le> 100
   \<and> (\<exists>s_min s_max.
         calculate_competitiveness_score 50 50 100 75 = Inr s_min
         \<and> calculate_competitiveness_score 100 50 100 75 = Inr s_max
         \<and> s_max < s_min \<and> s_min = 100 \<and> s_max = 0)
   \<and> calculate_competitiveness_score 60 80 80 75 = Inr 50"
proof -
  note spec = competitiveness_score_spec [where mn = 50 and mx = 100 and av = 75
      and p = 60 and lo = 80 and hi = 80 and a = 75]
  have strict: "\<exists>s_min s_max.
         calculate_competitiveness_score 50 50 100 75 = Inr s_min
         \<and> calculate_competitiveness_score 100 50 100 75 = Inr s_max
         \<and> s_max < s_min \<and> s_min = 100 \<and> s_max = 0"
    using spec [THEN conjunct1] by simp
  have flat: "calculate_competitiveness_score 60 80 80 75 = Inr 50"
    using spec [THEN conjunct2]
    by (cases "calculate_competitiveness_score 60 80 80 75") simp_all
  show ?thesis using strict flat by simp
qed

section \<open>Claims about serialisation\<close>

lemma calculate_proximity_travel_time:
  assumes "calculate_proximity self mlat mlon clat clon vid vname cid cname mid = Inr p"
    and "ps_distance_km p \<le> 0"
  shows "ps_travel_time_estimate_hours p = Some 0"
  using assms
  by (auto simp: calculate_proximity_def bind_err_def Let_def estimate_travel_time_def
      split: sum.splits if_splits)

lemma calculate_proximity_same_point:
  "calculate_proximity default_analyzer 0 0 0 0 ''V'' ''Vendor'' ''DC'' ''Center'' (Some ''M'')
     = Inr example_score"
  by (simp add: calculate_proximity_def haversine_same_point bind_err_def Let_def
      calculate_proximity_score_def estimate_travel_time_def calculate_shipping_cost_factor_def
      default_analyzer_def example_score_def)

text \<open>
  C9: \<open>to_dict\<close> writes \<open>None\<close> for an optional float that is present and zero. An
  \<open>AnomalyFlag\<close> whose \<open>z_score\<close> is \<open>0.0\<close> serialises \<open>z_score\<close> as \<open>None\<close>, and likewise
  \<open>expected_price\<close>; a \<open>ProximityScore\<close> whose \<open>travel_time_estimate_hours\<close> is \<open>0.0\<close>
  serialises it as \<open>None\<close>, and that is the value \<open>calculate_proximity\<close> stores whenever
  the distance is \<open>\<le> 0\<close>.
\<close>

theorem to_dict_zero_is_None:
  "(af_z_score a = Some 0 \<longrightarrow>
      map_of (AnomalyFlag_to_dict rt a) ''z_score'' = Some PyNone)
   \<and> (af_expected_price a = Some 0 \<longrightarrow>
      map_of (AnomalyFlag_to_dict rt a) ''expected_price'' = Some PyNone)
   \<and> (ps_travel_time_estimate_hours p = Some 0 \<longrightarrow>
      map_of (ProximityScore_to_dict p) ''travel_time_estimate_hours'' = Some PyNone)
   \<and> (calculate_proximity self mlat mlon clat clon vid vname cid cname mid = Inr q
        \<and> ps_distance_km q \<le> 0 \<longrightarrow>
      ps_travel_time_estimate_hours q = Some 0
      \<and> map_of (ProximityScore_to_dict q) ''travel_time_estimate_hours'' = Some PyNone)"
proof (intro conjI impI)
  show "map_of (AnomalyFlag_to_dict rt a) ''z_score'' = Some PyNone" if "af_z_score a = Some 0"
    using that by (simp add: AnomalyFlag_to_dict_def round_if_truthy_def)
  show "map_of (AnomalyFlag_to_dict rt a) ''expected_price'' = Some PyNone"
    if "af_expected_price a = Some 0"
    using that by (simp add: AnomalyFlag_to_dict_def round_if_truthy_def)
  show "map_of (ProximityScore_to_dict p) ''travel_time_estimate_hours'' = Some PyNone"
    if "ps_travel_time_estimate_hours p = Some 0"
    using that by (simp add: ProximityScore_to_dict_def round_if_truthy_def)
  assume h: "calculate_proximity self mlat mlon clat clon vid vname cid cname mid = Inr q
        \<and> ps_distance_km q \<le> 0"
  then show t: "ps_travel_time_estimate_hours q = Some 0"
    using calculate_proximity_travel_time by blast
  show "map_of (ProximityScore_to_dict q) ''travel_time_estimate_hours'' = Some PyNone"
    using t by (simp add: ProximityScore_to_dict_def round_if_truthy_def)
qed

theorem to_dict_zero_is_None_witness:
  "af_z_score example_flag = Some 0
   \<and> map_of (AnomalyFlag_to_dict example_runtime example_flag) ''z_score'' = Some PyNone
   \<and> af_expected_price example_flag = Some 0
   \<and> map_of (AnomalyFlag_to_dict example_runtime example_flag) ''expected_price'' = Some PyNone
   \<and> ps_travel_time_estimate_hours example_score = Some 0
   \<and> calculate_proximity default_analyzer 0 0 0 0 ''V'' ''Vendor'' ''DC'' ''Center'' (Some ''M'')
       = Inr example_score
   \<and> ps_distance_km example_score \<le> 0
   \<and> map_of (ProximityScore_to_dict example_score) ''travel_time_estimate_hours''
       = Some PyNone"
  using to_dict_zero_is_None [of example_flag example_runtime example_score default_analyzer
      0 0 0 0 "''V''" "''Vendor''" "''DC''" "''Center''" "Some ''M''" example_score]
    calculate_proximity_same_point
  by (simp add: example_flag_def example_score_def)

section \<open>Claims about the statistics\<close>

lemma foldl_plus_sum_list: "foldl (+) a xs = a + sum_list xs" for a :: real
  by (induction xs arbitrary: a) simp_all

lemma py_sum_eq: "py_sum xs = sum_list xs"
  by (simp add: py_sum_def foldl_plus_sum_list)

lemma foldl_keep_min: "foldl (\<lambda>m y. if y < m then y else m) x ys = Min (set (x # ys))"
  for x :: real
proof (induction ys arbitrary: x)
  case Nil
  then show ?case by simp
next
  case (Cons y ys)
  have "(if y < x then y else x) = min x y" by (simp add: min_def)
  then have "foldl (\<lambda>m y. if y < m then y else m) x (y # ys) = Min (set (min x y # ys))"
    using Cons.IH [of "min x y"] by simp
  also have "\<dots> = Min (set (x # y # ys))"
    by (cases "ys = []") (simp_all add: min.assoc)
  finally show ?case .
qed

lemma foldl_keep_max: "foldl (\<lambda>m y. if y > m then y else m) x ys = Max (set (x # ys))"
  for x :: real
proof (induction ys arbitrary: x)
  case Nil
  then show ?case by simp
next
  case (Cons y ys)
  have "(if y > x then y else x) = max x y" by (simp add: max_def)
  then have "foldl (\<lambda>m y. if y > m then y else m) x (y # ys) = Max (set (max x y # ys))"
    using Cons.IH [of "max x y"] by simp
  also have "\<dots> = Max (set (x # y # ys))"
    by (cases "ys = []") (simp_all add: max.assoc)
  finally show ?case .
qed

lemma py_min_eq: "xs \<noteq> [] \<Longrightarrow> py_min xs = Inr (Min (set xs))"
  by (cases xs) (simp_all add: py_min_def foldl_keep_min del: set_simps)

lemma py_max_eq: "xs \<noteq> [] \<Longrightarrow> py_max xs = Inr (Max (set xs))"
  by (cases xs) (simp_all add: py_max_def foldl_keep_max del: set_simps)

lemma py_index_in_range: "0 \<le> i \<Longrightarrow> i < int (length xs) \<Longrightarrow> py_index xs i = Inr (xs ! nat i)"
  by (simp add: py_index_def)

lemma sum_squares_nonneg: "0 \<le> sum_list (map (\<lambda>p. (p - m)\<^sup>2) xs)" for m :: real
  by (rule sum_list_nonneg) auto

lemma median_step:
  assumes "prices \<noteq> []"
  shows "(if length prices mod 2 = 0 then
             bind_err (py_index (sort prices) (int (length prices) div 2 - 1)) (\<lambda>lo.
             bind_err (py_index (sort prices) (int (length prices) div 2)) (\<lambda>hi.
             py_div (lo + hi) 2))
           else py_index (sort prices) (int (length prices) div 2)) = Inr (median_of prices)"
proof -
  let ?n = "length prices"
  have n: "0 < ?n" using assms by simp
  have half: "int ?n div 2 = int (?n div 2)" by simp
  have i2: "py_index (sort prices) (int ?n div 2) = Inr (sort prices ! (?n div 2))"
    using n by (subst py_index_in_range) (simp_all add: half del: of_nat_div)
  show ?thesis
  proof (cases "even ?n")
    case True
    then have "2 \<le> ?n" using n by presburger
    then have eq: "int ?n div 2 - 1 = int (?n div 2 - 1)" by (simp add: of_nat_diff)
    have "py_index (sort prices) (int (?n div 2 - 1))
            = Inr (sort prices ! nat (int (?n div 2 - 1)))"
    proof (rule py_index_in_range)
      show "0 \<le> int (?n div 2 - 1)" by simp
      have "?n div 2 - 1 < ?n" using n by arith
      then show "int (?n div 2 - 1) < int (length (sort prices))" by simp
    qed
    then have i1: "py_index (sort prices) (int ?n div 2 - 1) = Inr (sort prices ! (?n div 2 - 1))"
      by (simp only: eq nat_int)
    show ?thesis using True i1 i2
      by (simp add: bind_err_def py_div_def median_of_def Let_def even_iff_mod_2_eq_zero)
  next
    case False
    then show ?thesis using i2
      by (simp add: median_of_def Let_def even_iff_mod_2_eq_zero)
  qed
qed


lemma std_dev_step:
  assumes "1 < length prices"
  shows "bind_err (py_div (py_sum (map (\<lambda>p. (p - m)\<^sup>2) prices)) (real (length prices) - 1))
           (\<lambda>variance. py_sqrt variance)
         = Inr (sqrt (sum_list (map (\<lambda>p. (p - m)\<^sup>2) prices) / (real (length prices) - 1)))"
proof -
  have "0 \<le> sum_list (map (\<lambda>p. (p - m)\<^sup>2) prices) / (real (length prices) - 1)"
    using assms sum_squares_nonneg [of m prices] by (intro divide_nonneg_nonneg) simp_all
  then show ?thesis
    using assms by (simp add: bind_err_def py_div_def py_sqrt_def py_sum_eq)
qed

lemma calculate_statistics_nonempty:
  assumes "prices \<noteq> []"
  defines "n \<equiv> length prices"
  defines "mean \<equiv> sum_list prices / real n"
  defines "std_dev \<equiv>
     (if n > 1 then sqrt (sum_list (map (\<lambda>p. (p - mean)\<^sup>2) prices) / (real n - 1)) else 0)"
  shows "calculate_statistics prices =
     Inr \<lparr>st_mean = mean, st_median = median_of prices, st_std_dev = std_dev,
          st_min = Min (set prices), st_max = Max (set prices),
          st_range = Max (set prices) - Min (set prices),
          st_cv = (if mean > 0 then std_dev / mean else 0)\<rparr>"
proof -
  have n: "0 < n" using assms by simp
  have m: "py_div (py_sum prices) (real (length prices)) = Inr mean"
    using n by (simp add: py_div_def py_sum_eq mean_def n_def)
  have sd: "(if length prices > 1 then
             bind_err (py_div (py_sum (map (\<lambda>p. (p - mean)\<^sup>2) prices))
                         (real (length prices) - 1)) (\<lambda>variance.
             py_sqrt variance)
           else Inr 0) = Inr std_dev"
    using std_dev_step [of prices mean] by (simp add: std_dev_def n_def)
  have cv: "(if mean > 0 then py_div std_dev mean else Inr 0)
              = Inr (if mean > 0 then std_dev / mean else 0)"
    by (simp add: py_div_def)
  have b: "\<And>x f. bind_err (Inr x) f = f x" by (simp add: bind_err_def)
  show ?thesis
    unfolding calculate_statistics_def Let_def
    by (simp only: assms(1) if_False m b median_step [OF assms(1)] sd cv
        py_min_eq [OF assms(1)] py_max_eq [OF assms(1)])
qed

text \<open>
  C6: \<open>calculate_statistics\<close> returns for every list of prices, and never raises. On
  the empty list every field is 0. Otherwise the mean is \<open>sum / n\<close>; the median is the
  middle element of the sorted list for odd \<open>n\<close> and the average of the two central ones
  for even \<open>n\<close>; the standard deviation uses the divisor \<open>n - 1\<close> for \<open>n > 1\<close> and is 0 for
  \<open>n \<le> 1\<close>; min and max are the least and greatest price and the range is their
  difference; the coefficient of variation is \<open>std_dev / mean\<close> when \<open>mean > 0\<close> and 0
  otherwise.
\<close>

theorem calculate_statistics_spec:
  "\<exists>st. calculate_statistics prices = Inr st
     \<and> (prices = [] \<longrightarrow>
          st = \<lparr>st_mean = 0, st_median = 0, st_std_dev = 0, st_min = 0, st_max = 0,
                st_range = 0, st_cv = 0\<rparr>)
     \<and> (prices \<noteq> [] \<longrightarrow>
          (let n = length prices;
               s = sort prices;
               mean = sum_list prices / real n;
               std_dev = (if n > 1
                          then sqrt (sum_list (map (\<lambda>p. (p - mean)\<^sup>2) prices) / (real n - 1))
                          else 0)
           in st_mean st = mean
              \<and> st_median st =
                  (if even n then (s ! (n div 2 - 1) + s ! (n div 2)) / 2 else s ! (n div 2))
              \<and> st_std_dev st = std_dev
              \<and> st_min st = Min (set prices)
              \<and> st_max st = Max (set prices)
              \<and> st_range st = Max (set prices) - Min (set prices)
              \<and> st_cv st = (if mean > 0 then std_dev / mean else 0)))"
proof (cases "prices = []")
  case True
  then show ?thesis by (simp add: calculate_statistics_def)
next
  case False
  show ?thesis
    using False
    by (simp only: calculate_statistics_nonempty [OF False] median_of_def Let_def) simp
qed


theorem calculate_statistics_spec_witness:
  "(\<exists>st. calculate_statistics [1, 3] = Inr st
      \<and> st_mean st = 2 \<and> st_median st = 2 \<and> st_std_dev st = sqrt 2
      \<and> st_min st = 1 \<and> st_max st = 3 \<and> st_range st = 2 \<and> st_cv st = sqrt 2 / 2)
   \<and> (\<exists>st. calculate_statistics [100, 105, 95, 110, 90] = Inr st
      \<and> st_mean st = 100 \<and> st_median st = 100 \<and> st_min st = 90 \<and> st_max st = 110
      \<and> st_range st = 20)
   \<and> calculate_statistics [] =
       Inr \<lparr>st_mean = 0, st_median = 0, st_std_dev = 0, st_min = 0, st_max = 0,
            st_range = 0, st_cv = 0\<rparr>"
proof (intro conjI)
  show "\<exists>st. calculate_statistics [1, 3] = Inr st
      \<and> st_mean st = 2 \<and> st_median st = 2 \<and> st_std_dev st = sqrt 2
      \<and> st_min st = 1 \<and> st_max st = 3 \<and> st_range st = 2 \<and> st_cv st = sqrt 2 / 2"
    using calculate_statistics_spec [of "[1, 3]"] by (simp add: Let_def)
  show "\<exists>st. calculate_statistics [100, 105, 95, 110, 90] = Inr st
      \<and> st_mean st = 100 \<and> st_median st = 100 \<and> st_min st = 90 \<and> st_max st = 110
      \<and> st_range st = 20"
    using calculate_statistics_spec [of "[100, 105, 95, 110, 90]"] by (auto simp: Let_def)
  show "calculate_statistics [] =
       Inr \<lparr>st_mean = 0, st_median = 0, st_std_dev = 0, st_min = 0, st_max = 0,
            st_range = 0, st_cv = 0\<rparr>"
    using calculate_statistics_spec [of "[]"] by simp
qed


section \<open>Claims about the regional variance\<close>

lemma group_base_region_pricing:
  "group_sku_market base_region_pricing =
     [(''SKU-A'', [(''MKT-2'', [observation ''SKU-A'' ''V-1'' ''MKT-2'' 10]),
                   (''MKT-3'', [observation ''SKU-A'' ''V-1'' ''MKT-3'' 20])]),
      (''SKU-B'', [(''MKT-1'', [observation ''SKU-B'' ''V-1'' ''MKT-1'' 10]),
                   (''MKT-2'', [observation ''SKU-B'' ''V-1'' ''MKT-2'' 30])])]"
  by (simp add: group_sku_market_def base_region_pricing_def observation_def get_or_def)

lemma group_rev_base_region_pricing:
  "group_sku_market (rev base_region_pricing) =
     [(''SKU-B'', [(''MKT-2'', [observation ''SKU-B'' ''V-1'' ''MKT-2'' 30]),
                   (''MKT-1'', [observation ''SKU-B'' ''V-1'' ''MKT-1'' 10])]),
      (''SKU-A'', [(''MKT-3'', [observation ''SKU-A'' ''V-1'' ''MKT-3'' 20]),
                   (''MKT-2'', [observation ''SKU-A'' ''V-1'' ''MKT-2'' 10])])]"
  by (simp add: group_sku_market_def base_region_pricing_def observation_def get_or_def)

lemmas regional_variance_eval =
  calculate_regional_variance_def first_record_of_def bind_err_def Let_def priced_def
  truthy_price_def observation_def get_or_def py_index_def py_div_def py_sum_def dict_set_def
  determine_base_def global_average_base_def default_detector_def VarianceDetector_init_def
  variance_summary_def

text \<open>
  C2, at the input \<open>base_region_pricing\<close> with \<open>base_region_id = "MKT-1"\<close>: \<open>SKU-A\<close> has
  no price in \<open>MKT-1\<close>, so its base is the global average, and the code then assigns
  \<open>"global_avg"\<close> to the variable \<open>base_region_id\<close> itself. \<open>SKU-B\<close>, which comes next and
  is priced in \<open>MKT-1\<close>, is compared with its global average 20 under the region id
  \<open>"global_avg"\<close>, not with \<open>MKT-1\<close> and its price 10. With the same observations in the
  reverse order \<open>SKU-B\<close> comes first and is compared with \<open>MKT-1\<close>.
\<close>

theorem regional_variance_base_overwritten:
  "map_sum id (map variance_summary)
     (calculate_regional_variance default_detector base_region_pricing (Some ''MKT-1''))
   = Inr [(''SKU-A'', ''global_avg'', 15, ''MKT-2''), (''SKU-A'', ''global_avg'', 15, ''MKT-3''),
          (''SKU-B'', ''global_avg'', 20, ''MKT-1''), (''SKU-B'', ''global_avg'', 20, ''MKT-2'')]
   \<and> map_sum id (map variance_summary)
     (calculate_regional_variance default_detector (rev base_region_pricing) (Some ''MKT-1''))
   = Inr [(''SKU-B'', ''MKT-1'', 10, ''MKT-2''),
          (''SKU-A'', ''global_avg'', 15, ''MKT-3''), (''SKU-A'', ''global_avg'', 15, ''MKT-2'')]"
  by (simp add: regional_variance_eval group_base_region_pricing group_rev_base_region_pricing)

section \<open>Claims about anomaly detection\<close>

lemma observation_loop_regional_ok:
  "list_all (regional_ok self) anomalies \<Longrightarrow>
     list_all (regional_ok self) (observation_loop self rt sku_id product_name stats records anomalies)"
  by (induction records arbitrary: anomalies) (simp_all add: Let_def regional_ok_def)

lemma sku_anomaly_loop_regional_ok:
  "sku_anomaly_loop self rt sku_data anomalies = Inr result \<Longrightarrow>
   list_all (regional_ok self) anomalies \<Longrightarrow> list_all (regional_ok self) result"
proof (induction sku_data arbitrary: anomalies)
  case Nil
  then show ?case by simp
next
  case (Cons g rest)
  obtain sku_id records where g: "g = (sku_id, records)" by (cases g)
  show ?case
    using Cons.prems Cons.IH observation_loop_regional_ok
    by (auto simp: g bind_err_def Let_def split: if_splits sum.splits)
qed

lemma severity_value_high_critical:
  "Severity_value s \<in> set [''high'', ''critical''] \<longleftrightarrow> s = HIGH \<or> s = CRITICAL"
  by (cases s) simp_all

lemma regional_anomaly_loop_regional_ok:
  "list_all (regional_ok self) anomalies \<Longrightarrow>
     list_all (regional_ok self) (regional_anomaly_loop self rt variances anomalies)"
proof (induction variances arbitrary: anomalies)
  case Nil
  then show ?case by simp
next
  case (Cons v rest)
  show ?case
    using Cons.prems
    by (simp add: Let_def severity_value_high_critical del: set_simps)
       (auto intro!: Cons.IH simp: regional_ok_def)
qed

lemma discovered_regional_ok:
  "discovered_anomalies self rt pricing_data historical_data = Inr discovered \<Longrightarrow>
     list_all (regional_ok self) discovered"
  using sku_anomaly_loop_regional_ok [of self rt "group_sku pricing_data" "[]"]
    regional_anomaly_loop_regional_ok [of self]
  by (auto simp: discovered_anomalies_def bind_err_def split: sum.splits)

text \<open>
  C7: in the list \<open>detect_anomalies\<close> returns, every anomaly of type
  \<open>regional_variance\<close> has \<open>|percentage_variance| \<ge> variance_threshold_pct\<close> and severity
  high or critical; the list is sorted by severity, critical first, then high, medium
  and low; and anomalies of equal severity keep the order in which they were discovered.
\<close>

theorem detect_anomalies_spec:
  assumes "detect_anomalies self rt pricing_data historical_data = Inr result"
  shows "(\<forall>a \<in> set result. af_anomaly_type a = REGIONAL_VARIANCE \<longrightarrow>
            \<bar>af_variance_percentage a\<bar> \<ge> variance_threshold_pct self
            \<and> (af_severity a = HIGH \<or> af_severity a = CRITICAL))
       \<and> sorted (map (\<lambda>a. severity_order (af_severity a)) result)
       \<and> (\<exists>discovered.
            discovered_anomalies self rt pricing_data historical_data = Inr discovered
            \<and> (\<forall>s. filter (\<lambda>a. af_severity a = s) result
                     = filter (\<lambda>a. af_severity a = s) discovered))"
proof -
  obtain discovered where
    d: "discovered_anomalies self rt pricing_data historical_data = Inr discovered"
    and r: "result = sort_key (\<lambda>a. severity_order (af_severity a)) discovered"
    using assms by (auto simp: detect_anomalies_def bind_err_def split: sum.splits)
  have ok: "list_all (regional_ok self) discovered"
    using d by (rule discovered_regional_ok)
  have "\<forall>a \<in> set result. regional_ok self a"
    using ok by (simp add: r list_all_iff)
  then have p1: "\<forall>a \<in> set result. af_anomaly_type a = REGIONAL_VARIANCE \<longrightarrow>
            \<bar>af_variance_percentage a\<bar> \<ge> variance_threshold_pct self
            \<and> (af_severity a = HIGH \<or> af_severity a = CRITICAL)"
    by (simp add: regional_ok_def)
  have p2: "sorted (map (\<lambda>a. severity_order (af_severity a)) result)"
    by (simp add: r)
  have inj: "severity_order x = severity_order y \<longleftrightarrow> x = y" for x y
    by (cases x; cases y) simp_all
  have p3: "filter (\<lambda>a. af_severity a = s) result = filter (\<lambda>a. af_severity a = s) discovered"
    for s
    using sort_key_stable [of "\<lambda>a. severity_order (af_severity a)" "severity_order s" discovered]
    by (simp add: r inj)
  show ?thesis using p1 p2 p3 d by blast
qed


subsection \<open>The detector on \<open>anomaly_pricing\<close>\<close>

lemma sqrt_400: "sqrt 400 = 20"
  by (rule real_sqrt_unique) simp_all

lemma sqrt_100: "sqrt 100 = 10"
  by (rule real_sqrt_unique) simp_all

lemma stats_B: "calculate_statistics [100, 120, 140] =
  Inr \<lparr>st_mean = 120, st_median = 120, st_std_dev = 20, st_min = 100, st_max = 140,
       st_range = 40, st_cv = 1 / 6\<rparr>"
  by (simp add: calculate_statistics_nonempty median_of_def sqrt_400)

lemma stats_A: "calculate_statistics [10, 20, 30] =
  Inr \<lparr>st_mean = 20, st_median = 20, st_std_dev = 10, st_min = 10, st_max = 30,
       st_range = 20, st_cv = 1 / 2\<rparr>"
  by (simp add: calculate_statistics_nonempty median_of_def sqrt_100)

lemma group_sku_anomaly_pricing:
  "group_sku anomaly_pricing =
     [(''SKU-B'', [observation ''SKU-B'' ''V-1'' ''MKT-1'' 100,
                   observation ''SKU-B'' ''V-2'' ''MKT-2'' 120,
                   observation ''SKU-B'' ''V-3'' ''MKT-3'' 140]),
      (''SKU-A'', [observation ''SKU-A'' ''V-1'' ''MKT-1'' 10,
                   observation ''SKU-A'' ''V-2'' ''MKT-2'' 20,
                   observation ''SKU-A'' ''V-3'' ''MKT-3'' 30])]"
  by (simp add: group_sku_def anomaly_pricing_def observation_def get_or_def)

lemma group_sku_market_anomaly_pricing:
  "group_sku_market anomaly_pricing =
     [(''SKU-B'', [(''MKT-1'', [observation ''SKU-B'' ''V-1'' ''MKT-1'' 100]),
                   (''MKT-2'', [observation ''SKU-B'' ''V-2'' ''MKT-2'' 120]),
                   (''MKT-3'', [observation ''SKU-B'' ''V-3'' ''MKT-3'' 140])]),
      (''SKU-A'', [(''MKT-1'', [observation ''SKU-A'' ''V-1'' ''MKT-1'' 10]),
                   (''MKT-2'', [observation ''SKU-A'' ''V-2'' ''MKT-2'' 20]),
                   (''MKT-3'', [observation ''SKU-A'' ''V-3'' ''MKT-3'' 30])])]"
  by (simp add: group_sku_market_def anomaly_pricing_def observation_def get_or_def)

lemma discovered_example:
  "map_sum id (map anomaly_summary)
     (discovered_anomalies default_detector example_runtime anomaly_pricing None) =
   Inr [(''SKU-B'', Some ''MKT-1'', PRICE_DROP, MEDIUM, - (50 / 3)),
        (''SKU-B'', Some ''MKT-3'', PRICE_SPIKE, MEDIUM, 50 / 3),
        (''SKU-A'', Some ''MKT-1'', PRICE_DROP, CRITICAL, - 50),
        (''SKU-A'', Some ''MKT-3'', PRICE_SPIKE, CRITICAL, 50),
        (''SKU-A'', Some ''MKT-1'', REGIONAL_VARIANCE, CRITICAL, - 50),
        (''SKU-A'', Some ''MKT-3'', REGIONAL_VARIANCE, CRITICAL, 50)]"
  by (simp add: discovered_anomalies_def
      group_sku_anomaly_pricing group_sku_market_anomaly_pricing
      regional_variance_eval stats_A stats_B calculate_z_score_def
      determine_severity_def anomaly_summary_def)


lemma map_insort_key:
  assumes "\<And>a. k (g a) = f a"
  shows "map g (insort_key f x xs) = insort_key k (g x) (map g xs)"
  by (induction xs) (simp_all add: assms)

lemma map_sort_key:
  assumes "\<And>a. k (g a) = f a"
  shows "map g (sort_key f xs) = sort_key k (map g xs)"
  by (induction xs) (simp_all add: map_insort_key [of k g f, OF assms])

lemma detect_example:
  "\<exists>result.
     detect_anomalies default_detector example_runtime anomaly_pricing None = Inr result
     \<and> map anomaly_summary result =
        [(''SKU-A'', Some ''MKT-1'', PRICE_DROP, CRITICAL, - 50),
         (''SKU-A'', Some ''MKT-3'', PRICE_SPIKE, CRITICAL, 50),
         (''SKU-A'', Some ''MKT-1'', REGIONAL_VARIANCE, CRITICAL, - 50),
         (''SKU-A'', Some ''MKT-3'', REGIONAL_VARIANCE, CRITICAL, 50),
         (''SKU-B'', Some ''MKT-1'', PRICE_DROP, MEDIUM, - (50 / 3)),
         (''SKU-B'', Some ''MKT-3'', PRICE_SPIKE, MEDIUM, 50 / 3)]"
proof -
  obtain discovered where
    d: "discovered_anomalies default_detector example_runtime anomaly_pricing None
          = Inr discovered"
    and m: "map anomaly_summary discovered =
       [(''SKU-B'', Some ''MKT-1'', PRICE_DROP, MEDIUM, - (50 / 3)),
        (''SKU-B'', Some ''MKT-3'', PRICE_SPIKE, MEDIUM, 50 / 3),
        (''SKU-A'', Some ''MKT-1'', PRICE_DROP, CRITICAL, - 50),
        (''SKU-A'', Some ''MKT-3'', PRICE_SPIKE, CRITICAL, 50),
        (''SKU-A'', Some ''MKT-1'', REGIONAL_VARIANCE, CRITICAL, - 50),
        (''SKU-A'', Some ''MKT-3'', REGIONAL_VARIANCE, CRITICAL, 50)]"
    using discovered_example
    by (cases "discovered_anomalies default_detector example_runtime anomaly_pricing None") auto
  have k: "(\<lambda>(sku, market, ty, sev, var). severity_order sev) (anomaly_summary a)
             = severity_order (af_severity a)" for a
    by (simp add: anomaly_summary_def)
  have "map anomaly_summary (sort_key (\<lambda>a. severity_order (af_severity a)) discovered)
          = sort_key (\<lambda>(sku, market, ty, sev, var). severity_order sev)
              (map anomaly_summary discovered)"
    by (rule map_sort_key) (rule k)
  also have "\<dots> =
        [(''SKU-A'', Some ''MKT-1'', PRICE_DROP, CRITICAL, - 50),
         (''SKU-A'', Some ''MKT-3'', PRICE_SPIKE, CRITICAL, 50),
         (''SKU-A'', Some ''MKT-1'', REGIONAL_VARIANCE, CRITICAL, - 50),
         (''SKU-A'', Some ''MKT-3'', REGIONAL_VARIANCE, CRITICAL, 50),
         (''SKU-B'', Some ''MKT-1'', PRICE_DROP, MEDIUM, - (50 / 3)),
         (''SKU-B'', Some ''MKT-3'', PRICE_SPIKE, MEDIUM, 50 / 3)]"
    unfolding m by simp
  finally have sorted_summary:
    "map anomaly_summary (sort_key (\<lambda>a. severity_order (af_severity a)) discovered) =
        [(''SKU-A'', Some ''MKT-1'', PRICE_DROP, CRITICAL, - 50),
         (''SKU-A'', Some ''MKT-3'', PRICE_SPIKE, CRITICAL, 50),
         (''SKU-A'', Some ''MKT-1'', REGIONAL_VARIANCE, CRITICAL, - 50),
         (''SKU-A'', Some ''MKT-3'', REGIONAL_VARIANCE, CRITICAL, 50),
         (''SKU-B'', Some ''MKT-1'', PRICE_DROP, MEDIUM, - (50 / 3)),
         (''SKU-B'', Some ''MKT-3'', PRICE_SPIKE, MEDIUM, 50 / 3)]" .
  have r: "detect_anomalies default_detector example_runtime anomaly_pricing None
             = Inr (sort_key (\<lambda>a. severity_order (af_severity a)) discovered)"
    unfolding detect_anomalies_def d bind_err_def by simp
  show ?thesis
    by (rule exI [of _ "sort_key (\<lambda>a. severity_order (af_severity a)) discovered"])
       (rule conjI [OF r sorted_summary])
qed

theorem detect_anomalies_spec_witness:
  "\<exists>result.
     detect_anomalies default_detector example_runtime anomaly_pricing None = Inr result
     \<and> map anomaly_summary result =
        [(''SKU-A'', Some ''MKT-1'', PRICE_DROP, CRITICAL, - 50),
         (''SKU-A'', Some ''MKT-3'', PRICE_SPIKE, CRITICAL, 50),
         (''SKU-A'', Some ''MKT-1'', REGIONAL_VARIANCE, CRITICAL, - 50),
         (''SKU-A'', Some ''MKT-3'', REGIONAL_VARIANCE, CRITICAL, 50),
         (''SKU-B'', Some ''MKT-1'', PRICE_DROP, MEDIUM, - (50 / 3)),
         (''SKU-B'', Some ''MKT-3'', PRICE_SPIKE, MEDIUM, 50 / 3)]
     \<and> sorted (map (\<lambda>a. severity_order (af_severity a)) result)
     \<and> list_all (regional_ok default_detector) result"
proof -
  from detect_example obtain result where
    r: "detect_anomalies default_detector example_runtime anomaly_pricing None = Inr result"
    and m: "map anomaly_summary result =
        [(''SKU-A'', Some ''MKT-1'', PRICE_DROP, CRITICAL, - 50),
         (''SKU-A'', Some ''MKT-3'', PRICE_SPIKE, CRITICAL, 50),
         (''SKU-A'', Some ''MKT-1'', REGIONAL_VARIANCE, CRITICAL, - 50),
         (''SKU-A'', Some ''MKT-3'', REGIONAL_VARIANCE, CRITICAL, 50),
         (''SKU-B'', Some ''MKT-1'', PRICE_DROP, MEDIUM, - (50 / 3)),
         (''SKU-B'', Some ''MKT-3'', PRICE_SPIKE, MEDIUM, 50 / 3)]"
    by (elim exE conjE)
  note spec = detect_anomalies_spec [OF r]
  have ok: "list_all (regional_ok default_detector) result"
    using spec [THEN conjunct1] by (simp add: list_all_iff regional_ok_def)
  have srt: "sorted (map (\<lambda>a. severity_order (af_severity a)) result)"
    using spec [THEN conjunct2, THEN conjunct1] .
  show ?thesis
    by (rule exI [of _ result]) (intro conjI r m srt ok)
qed

section \<open>Claims about the vendor coverage\<close>

lemma bind_err_Inr_iff:
  "bind_err m f = Inr y \<longleftrightarrow> (\<exists>x. m = Inr x \<and> f x = Inr y)"
  by (cases m) (simp_all add: bind_err_def)

lemma calculate_proximity_fields:
  assumes "calculate_proximity self mlat mlon clat clon vid vname cid cname mid = Inr p"
  shows "haversine_distance mlat mlon clat clon = Inr (ps_distance_km p)
       \<and> ps_proximity_score p
           = calculate_proximity_score (ps_distance_km p) (max_distance_km self) (decay_factor self)"
  using assms
  by (auto simp: calculate_proximity_def bind_err_Inr_iff Let_def)

lemma calculate_proximity_returns:
  assumes "average_speed_kmh self \<noteq> 0"
  shows "\<exists>p. calculate_proximity self mlat mlon clat clon vid vname cid cname mid = Inr p"
  using assms haversine_distance_returns [of mlat mlon clat clon]
  by (auto simp: calculate_proximity_def bind_err_def Let_def estimate_travel_time_def py_div_def)

lemma collect_proximity_scores_length:
  "collect_proximity_scores self mlat mlon mid vid vname dcs = Inr scores \<Longrightarrow>
     length scores = length (filter (owned_by vid) dcs)"
proof (induction dcs arbitrary: scores)
  case Nil
  then show ?case by simp
next
  case (Cons dc dcs)
  then show ?case
    by (auto simp: owned_by_def bind_err_Inr_iff split: if_splits)
qed

lemma collect_proximity_scores_score:
  "collect_proximity_scores self mlat mlon mid vid vname dcs = Inr scores \<Longrightarrow>
   p \<in> set scores \<Longrightarrow>
     ps_proximity_score p
       = calculate_proximity_score (ps_distance_km p) (max_distance_km self) (decay_factor self)"
proof (induction dcs arbitrary: scores)
  case Nil
  then show ?case by simp
next
  case (Cons dc dcs)
  show ?case
  proof (cases "dc_vendor_id dc \<noteq> Some vid")
    case True
    then show ?thesis using Cons by simp
  next
    case False
    then obtain q rest where
      q: "calculate_proximity self mlat mlon (get_or (dc_latitude dc) 0)
            (get_or (dc_longitude dc) 0) vid vname (get_or (dc_center_id dc) [])
            (get_or (dc_center_name dc) []) (Some mid) = Inr q"
      and rest: "collect_proximity_scores self mlat mlon mid vid vname dcs = Inr rest"
      and scores: "scores = q # rest"
      using Cons.prems(1) by (auto simp: bind_err_Inr_iff)
    show ?thesis
    proof (cases "p = q")
      case True
      then show ?thesis using calculate_proximity_fields [OF q] by simp
    next
      case False
      then have "p \<in> set rest" using Cons.prems(2) scores by simp
      then show ?thesis using Cons.IH [OF rest] by simp
    qed
  qed
qed

lemma collect_proximity_scores_returns:
  assumes "average_speed_kmh self \<noteq> 0"
  shows "\<exists>scores. collect_proximity_scores self mlat mlon mid vid vname dcs = Inr scores"
proof (induction dcs)
  case Nil
  then show ?case by simp
next
  case (Cons dc dcs)
  then obtain rest where "collect_proximity_scores self mlat mlon mid vid vname dcs = Inr rest"
    by blast
  moreover obtain q where "calculate_proximity self mlat mlon (get_or (dc_latitude dc) 0)
            (get_or (dc_longitude dc) 0) vid vname (get_or (dc_center_id dc) [])
            (get_or (dc_center_name dc) []) (Some mid) = Inr q"
    using calculate_proximity_returns [OF assms] by blast
  ultimately show ?case by (simp add: bind_err_def)
qed


lemma coverage_of_scores_Inr:
  assumes "coverage_of_scores vid vname mid rname scores = Inr c"
  shows "vc_centers c = sort_key ps_distance_km scores
       \<and> vc_center_count c = length scores
       \<and> vc_coverage_score c
           = (if scores = [] then 0 else weighted_score (sort_key ps_distance_km scores))"
proof (cases "scores = []")
  case True
  then show ?thesis using assms by (auto simp: coverage_of_scores_def)
next
  case False
  then show ?thesis
    using assms by (auto simp: coverage_of_scores_def Let_def bind_err_Inr_iff)
qed

lemma coverage_of_scores_returns:
  "\<exists>c. coverage_of_scores vid vname mid rname scores = Inr c"
proof (cases "scores = []")
  case True
  then show ?thesis by (simp add: coverage_of_scores_def)
next
  case False
  then have "sort_key ps_distance_km scores \<noteq> []"
    by (cases scores) simp_all
  then have "py_min (map ps_distance_km (sort_key ps_distance_km scores))
               = Inr (Min (set (map ps_distance_km (sort_key ps_distance_km scores))))"
    by (intro py_min_eq) simp
  then show ?thesis using False
    unfolding coverage_of_scores_def Let_def by (simp only: if_False bind_err_def sum.case) simp
qed

lemma analyze_vendor_coverage_Inr:
  assumes "analyze_vendor_coverage self market vendor dcs = Inr c"
  shows "\<exists>scores.
           collect_proximity_scores self (get_or (mk_latitude market) 0)
             (get_or (mk_longitude market) 0) (get_or (mk_market_id market) [])
             (get_or (vn_vendor_id vendor) []) (get_or (vn_vendor_name vendor) []) dcs
             = Inr scores
           \<and> vc_centers c = sort_key ps_distance_km scores
           \<and> vc_center_count c = length scores
           \<and> vc_coverage_score c
               = (if scores = [] then 0 else weighted_score (sort_key ps_distance_km scores))"
proof -
  obtain scores where
    sc: "collect_proximity_scores self (get_or (mk_latitude market) 0)
             (get_or (mk_longitude market) 0) (get_or (mk_market_id market) [])
             (get_or (vn_vendor_id vendor) []) (get_or (vn_vendor_name vendor) []) dcs
             = Inr scores"
    and cv: "coverage_of_scores (get_or (vn_vendor_id vendor) [])
               (get_or (vn_vendor_name vendor) []) (get_or (mk_market_id market) [])
               (get_or (mk_region_name market) []) scores = Inr c"
    using assms unfolding analyze_vendor_coverage_def Let_def bind_err_Inr_iff
    by (elim exE conjE)
  show ?thesis
    by (rule exI [of _ scores]) (rule conjI [OF sc coverage_of_scores_Inr [OF cv]])
qed

lemma analyze_vendor_coverage_returns:
  assumes "average_speed_kmh self \<noteq> 0"
  shows "\<exists>c. analyze_vendor_coverage self market vendor dcs = Inr c"
proof -
  have "\<exists>scores. collect_proximity_scores self (get_or (mk_latitude market) 0)
       (get_or (mk_longitude market) 0) (get_or (mk_market_id market) [])
       (get_or (vn_vendor_id vendor) []) (get_or (vn_vendor_name vendor) []) dcs = Inr scores"
    by (rule collect_proximity_scores_returns [OF assms])
  then obtain scores where
    sc: "collect_proximity_scores self (get_or (mk_latitude market) 0)
       (get_or (mk_longitude market) 0) (get_or (mk_market_id market) [])
       (get_or (vn_vendor_id vendor) []) (get_or (vn_vendor_name vendor) []) dcs = Inr scores"
    by (elim exE)
  have "\<exists>c. coverage_of_scores (get_or (vn_vendor_id vendor) [])
               (get_or (vn_vendor_name vendor) []) (get_or (mk_market_id market) [])
               (get_or (mk_region_name market) []) scores = Inr c"
    by (rule coverage_of_scores_returns)
  then obtain c where
    "coverage_of_scores (get_or (vn_vendor_id vendor) [])
               (get_or (vn_vendor_name vendor) []) (get_or (mk_market_id market) [])
               (get_or (mk_region_name market) []) scores = Inr c"
    by (elim exE)
  then show ?thesis
    unfolding analyze_vendor_coverage_def Let_def by (simp only: sc bind_err_def sum.case) simp
qed

lemma weighted_score_all_zero:
  assumes "\<forall>p \<in> set xs. ps_proximity_score p = 0"
  shows "weighted_score xs = 0"
proof -
  have "map (\<lambda>(ps, w). ps_proximity_score ps * w) (zip xs (coverage_weights (length xs)))
          = map (\<lambda>_. 0) (zip xs (coverage_weights (length xs)))"
    using assms by (intro map_cong) (auto dest: set_zip_leftD)
  then have "sum_list (map (\<lambda>(ps, w). ps_proximity_score ps * w)
                 (zip xs (coverage_weights (length xs)))) = 0"
    by (simp only: sum_list_0)
  then show ?thesis unfolding weighted_score_def Let_def py_sum_eq by simp
qed

lemma collect_coverages_Inr:
  "collect_coverages self market dcs vendors = Inr covs \<Longrightarrow>
     (\<forall>vendor \<in> set vendors. \<exists>c. analyze_vendor_coverage self market vendor dcs = Inr c
          \<and> (0 < vc_center_count c \<longrightarrow> c \<in> set covs))
     \<and> (\<forall>c \<in> set covs. 0 < vc_center_count c
          \<and> (\<exists>vendor \<in> set vendors. analyze_vendor_coverage self market vendor dcs = Inr c))"
proof (induction vendors arbitrary: covs)
  case Nil
  then show ?case by simp
next
  case (Cons v vs)
  from Cons.prems obtain c rest where
    c: "analyze_vendor_coverage self market v dcs = Inr c"
    and rest: "collect_coverages self market dcs vs = Inr rest"
    and covs: "covs = (if vc_center_count c > 0 then c # rest else rest)"
    by (auto simp: bind_err_Inr_iff)
  note IH = Cons.IH [OF rest]
  have sub: "c' \<in> set rest \<Longrightarrow> c' \<in> set covs" for c'
    by (simp add: covs)
  have cin: "0 < vc_center_count c \<Longrightarrow> c \<in> set covs"
    by (simp add: covs)
  have inv: "c' \<in> set rest \<or> (c' = c \<and> 0 < vc_center_count c)" if "c' \<in> set covs" for c'
    using that by (cases "0 < vc_center_count c") (simp_all add: covs, fastforce)
  show ?case
  proof (intro conjI ballI)
    fix vendor assume "vendor \<in> set (v # vs)"
    then consider "vendor = v" | "vendor \<in> set vs" by fastforce
    then show "\<exists>c'. analyze_vendor_coverage self market vendor dcs = Inr c'
          \<and> (0 < vc_center_count c' \<longrightarrow> c' \<in> set covs)"
    proof cases
      case 1
      show ?thesis by (rule exI [of _ c]) (simp add: 1 c cin)
    next
      case 2
      have "\<exists>c'. analyze_vendor_coverage self market vendor dcs = Inr c'
          \<and> (0 < vc_center_count c' \<longrightarrow> c' \<in> set rest)"
        by (rule bspec [OF conjunct1 [OF IH] 2])
      then obtain c' where "analyze_vendor_coverage self market vendor dcs = Inr c'"
        and "0 < vc_center_count c' \<longrightarrow> c' \<in> set rest"
        by (elim exE conjE)
      then show ?thesis by (intro exI [of _ c']) (simp add: sub)
    qed
  next
    fix c' assume "c' \<in> set covs"
    then consider "c' \<in> set rest" | "c' = c" "0 < vc_center_count c" using inv by fastforce
    then show "0 < vc_center_count c'"
    proof cases
      case 1
      then show ?thesis using bspec [OF conjunct2 [OF IH] 1] by simp
    next
      case 2
      then show ?thesis by simp
    qed
  next
    fix c' assume "c' \<in> set covs"
    then consider "c' \<in> set rest" | "c' = c" "0 < vc_center_count c" using inv by fastforce
    then show "\<exists>vendor \<in> set (v # vs). analyze_vendor_coverage self market vendor dcs = Inr c'"
    proof cases
      case 1
      have "\<exists>vendor \<in> set vs. analyze_vendor_coverage self market vendor dcs = Inr c'"
        using bspec [OF conjunct2 [OF IH] 1] by simp
      then obtain vendor where "vendor \<in> set vs"
        and "analyze_vendor_coverage self market vendor dcs = Inr c'"
        by (elim bexE)
      then show ?thesis by (intro bexI [of _ vendor]) simp_all
    next
      case 2
      show ?thesis by (rule bexI [of _ v]) (simp_all add: 2 c)
    qed
  qed
qed

lemma collect_coverages_returns:
  assumes "average_speed_kmh self \<noteq> 0"
  shows "\<exists>covs. collect_coverages self market dcs vendors = Inr covs"
proof (induction vendors)
  case Nil
  then show ?case by simp
next
  case (Cons v vs)
  then obtain rest where rest: "collect_coverages self market dcs vs = Inr rest"
    by (elim exE)
  obtain c where c: "analyze_vendor_coverage self market v dcs = Inr c"
    using analyze_vendor_coverage_returns [OF assms, of market v dcs] by (elim exE)
  show ?case by (simp add: rest c bind_err_def)
qed


lemma analyze_market_vendors_returns:
  assumes "average_speed_kmh self \<noteq> 0"
  shows "\<exists>result. analyze_market_vendors self market vendors dcs = Inr result"
proof -
  have "\<exists>covs. collect_coverages self market dcs vendors = Inr covs"
    by (rule collect_coverages_returns [OF assms])
  then obtain covs where "collect_coverages self market dcs vendors = Inr covs"
    by (elim exE)
  then show ?thesis by (simp add: analyze_market_vendors_def bind_err_def)
qed

text \<open>
  C10: when \<open>analyze_market_vendors\<close> returns, a vendor's coverage is in the returned
  list exactly when its \<open>center_count\<close> is positive, and the \<open>center_count\<close> is the number
  of distribution centers the vendor owns; every coverage in the list is that of one
  of the vendors. In particular a vendor that owns a center and whose centers all lie at
  \<open>max_distance_km\<close> or farther (with \<open>max_distance_km > 0\<close>) has the coverage score 0 and
  is still in the list.
\<close>

theorem analyze_market_vendors_spec:
  assumes "analyze_market_vendors self market vendors dcs = Inr result"
  shows "(\<forall>vendor \<in> set vendors. \<exists>c.
            analyze_vendor_coverage self market vendor dcs = Inr c
            \<and> vc_center_count c
                = length (filter (owned_by (get_or (vn_vendor_id vendor) [])) dcs)
            \<and> (c \<in> set result \<longleftrightarrow> 0 < vc_center_count c)
            \<and> (0 < vc_center_count c \<and> 0 < max_distance_km self
                 \<and> (\<forall>p \<in> set (vc_centers c). max_distance_km self \<le> ps_distance_km p)
               \<longrightarrow> vc_coverage_score c = 0 \<and> c \<in> set result))
       \<and> (\<forall>c \<in> set result. \<exists>vendor \<in> set vendors.
            analyze_vendor_coverage self market vendor dcs = Inr c)"
proof -
  obtain covs where
    covs: "collect_coverages self market dcs vendors = Inr covs"
    and result: "result = sort_key (\<lambda>x. - vc_coverage_score x) covs"
    using assms by (auto simp: analyze_market_vendors_def bind_err_Inr_iff)
  have set_result: "set result = set covs" by (simp add: result)
  note cc = collect_coverages_Inr [OF covs]
  have part1: "\<exists>c. analyze_vendor_coverage self market vendor dcs = Inr c
            \<and> vc_center_count c
                = length (filter (owned_by (get_or (vn_vendor_id vendor) [])) dcs)
            \<and> (c \<in> set result \<longleftrightarrow> 0 < vc_center_count c)
            \<and> (0 < vc_center_count c \<and> 0 < max_distance_km self
                 \<and> (\<forall>p \<in> set (vc_centers c). max_distance_km self \<le> ps_distance_km p)
               \<longrightarrow> vc_coverage_score c = 0 \<and> c \<in> set result)"
    if v: "vendor \<in> set vendors" for vendor
  proof -
    have "\<exists>c. analyze_vendor_coverage self market vendor dcs = Inr c
          \<and> (0 < vc_center_count c \<longrightarrow> c \<in> set covs)"
      by (rule bspec [OF conjunct1 [OF cc] v])
    then obtain c where c: "analyze_vendor_coverage self market vendor dcs = Inr c"
      and incl: "0 < vc_center_count c \<longrightarrow> c \<in> set covs"
      by (elim exE conjE)
    obtain scores where
      sc: "collect_proximity_scores self (get_or (mk_latitude market) 0)
             (get_or (mk_longitude market) 0) (get_or (mk_market_id market) [])
             (get_or (vn_vendor_id vendor) []) (get_or (vn_vendor_name vendor) []) dcs
             = Inr scores"
      and centers: "vc_centers c = sort_key ps_distance_km scores"
      and count: "vc_center_count c = length scores"
      and score: "vc_coverage_score c
               = (if scores = [] then 0 else weighted_score (sort_key ps_distance_km scores))"
      using analyze_vendor_coverage_Inr [OF c] by (elim exE conjE)
    have n: "vc_center_count c
                = length (filter (owned_by (get_or (vn_vendor_id vendor) [])) dcs)"
      using collect_proximity_scores_length [OF sc] count by simp
    have iff: "c \<in> set result \<longleftrightarrow> 0 < vc_center_count c"
    proof
      assume "c \<in> set result"
      then have "c \<in> set covs" by (simp only: set_result)
      then show "0 < vc_center_count c"
        using bspec [OF conjunct2 [OF cc]] by simp
    next
      assume "0 < vc_center_count c"
      then show "c \<in> set result" using incl by (simp only: set_result)
    qed
    have zero: "vc_coverage_score c = 0"
      if far: "\<forall>p \<in> set (vc_centers c). max_distance_km self \<le> ps_distance_km p"
        and M: "0 < max_distance_km self"
    proof -
      have "ps_proximity_score p = 0" if p: "p \<in> set scores" for p
      proof -
        have "max_distance_km self \<le> ps_distance_km p" using far p centers by simp
        then show ?thesis
          using collect_proximity_scores_score [OF sc p] M
          by (simp add: calculate_proximity_score_def)
      qed
      then have "weighted_score (sort_key ps_distance_km scores) = 0"
        by (intro weighted_score_all_zero) simp
      then show ?thesis using score by simp
    qed
    have last: "0 < vc_center_count c \<and> 0 < max_distance_km self
                 \<and> (\<forall>p \<in> set (vc_centers c). max_distance_km self \<le> ps_distance_km p)
               \<longrightarrow> vc_coverage_score c = 0 \<and> c \<in> set result"
    proof (intro impI)
      assume h: "0 < vc_center_count c \<and> 0 < max_distance_km self
                 \<and> (\<forall>p \<in> set (vc_centers c). max_distance_km self \<le> ps_distance_km p)"
      then have far: "\<forall>p \<in> set (vc_centers c). max_distance_km self \<le> ps_distance_km p"
        and M: "0 < max_distance_km self" by simp_all
      show "vc_coverage_score c = 0 \<and> c \<in> set result"
        using zero [OF far M] h iff by simp
    qed
    show ?thesis
      by (rule exI [of _ c]) (intro conjI c n iff last)
  qed
  have part2: "\<forall>c \<in> set result. \<exists>vendor \<in> set vendors.
            analyze_vendor_coverage self market vendor dcs = Inr c"
  proof
    fix c assume "c \<in> set result"
    then have "c \<in> set covs" by (simp only: set_result)
    then show "\<exists>vendor \<in> set vendors. analyze_vendor_coverage self market vendor dcs = Inr c"
      using bspec [OF conjunct2 [OF cc]] by simp
  qed
  show ?thesis
  proof (intro conjI ballI)
    fix vendor assume "vendor \<in> set vendors"
    then show "\<exists>c. analyze_vendor_coverage self market vendor dcs = Inr c
            \<and> vc_center_count c
                = length (filter (owned_by (get_or (vn_vendor_id vendor) [])) dcs)
            \<and> (c \<in> set result \<longleftrightarrow> 0 < vc_center_count c)
            \<and> (0 < vc_center_count c \<and> 0 < max_distance_km self
                 \<and> (\<forall>p \<in> set (vc_centers c). max_distance_km self \<le> ps_distance_km p)
               \<longrightarrow> vc_coverage_score c = 0 \<and> c \<in> set result)"
      by (rule part1)
  next
    fix c assume "c \<in> set result"
    then show "\<exists>vendor \<in> set vendors. analyze_vendor_coverage self market vendor dcs = Inr c"
      by (rule bspec [OF part2])
  qed
qed

subsection \<open>The analyzer on the example market\<close>

lemma antipode_far: "500 \<le> 6371 * pi" "\<not> 6371 * pi \<le> 0" "0 < pi * 6371"
  using pi_ge_two by simp_all

lemmas coverage_eval =
  analyze_vendor_coverage_def coverage_of_scores_def calculate_proximity_def
  haversine_same_point haversine_antipodal bind_err_def Let_def get_or_def
  calculate_proximity_score_def estimate_travel_time_def calculate_shipping_cost_factor_def
  py_div_def py_min_def py_sum_def weighted_score_def coverage_weights_def
  default_analyzer_def example_market_def vendor_a_def vendor_b_def vendor_c_def
  center_a_near_def center_a_far_def center_b_far_def coverage_summary_def antipode_far

lemma coverage_a_near:
  "map_sum id coverage_summary
     (analyze_vendor_coverage default_analyzer example_market vendor_a
        [center_a_near, center_b_far]) = Inr (''V-A'', 1, Km 0, 100)"
  by (simp add: coverage_eval)

lemma coverage_b_far:
  "\<exists>c. analyze_vendor_coverage default_analyzer example_market vendor_b
        [center_a_near, center_b_far] = Inr c
     \<and> coverage_summary c = (''V-B'', 1, Km (6371 * pi), 0)
     \<and> map ps_distance_km (vc_centers c) = [6371 * pi]"
  by (simp add: coverage_eval)

lemma coverage_c_none:
  "map_sum id coverage_summary
     (analyze_vendor_coverage default_analyzer example_market vendor_c
        [center_a_near, center_b_far]) = Inr (''V-C'', 0, Infinity, 0)"
  by (simp add: coverage_eval)

lemma coverage_a_both:
  "map_sum id coverage_summary
     (analyze_vendor_coverage default_analyzer example_market vendor_a
        [center_a_near, center_a_far]) = Inr (''V-A'', 2, Km 0, 200 / 3)"
  by (simp add: coverage_eval)

lemma coverage_a_one:
  "map_sum id coverage_summary
     (analyze_vendor_coverage default_analyzer example_market vendor_a
        [center_a_near]) = Inr (''V-A'', 1, Km 0, 100)"
  by (simp add: coverage_eval)


lemma market_vendors_example:
  "\<exists>result.
     analyze_market_vendors default_analyzer example_market [vendor_b, vendor_c, vendor_a]
       [center_a_near, center_b_far] = Inr result
     \<and> map coverage_summary result
         = [(''V-A'', 1, Km 0, 100), (''V-B'', 1, Km (6371 * pi), 0)]"
  by (simp add: analyze_market_vendors_def coverage_eval)

theorem analyze_market_vendors_spec_witness:
  "\<exists>result c.
     analyze_market_vendors default_analyzer example_market [vendor_b, vendor_c, vendor_a]
       [center_a_near, center_b_far] = Inr result
     \<and> map coverage_summary result
         = [(''V-A'', 1, Km 0, 100), (''V-B'', 1, Km (6371 * pi), 0)]
     \<and> analyze_vendor_coverage default_analyzer example_market vendor_b
         [center_a_near, center_b_far] = Inr c
     \<and> coverage_summary c = (''V-B'', 1, Km (6371 * pi), 0)
     \<and> c \<in> set result"
proof -
  from market_vendors_example obtain result where
    r: "analyze_market_vendors default_analyzer example_market [vendor_b, vendor_c, vendor_a]
          [center_a_near, center_b_far] = Inr result"
    and m: "map coverage_summary result
         = [(''V-A'', 1, Km 0, 100), (''V-B'', 1, Km (6371 * pi), 0)]"
    by (elim exE conjE)
  from coverage_b_far obtain c where
    c: "analyze_vendor_coverage default_analyzer example_market vendor_b
          [center_a_near, center_b_far] = Inr c"
    and cs: "coverage_summary c = (''V-B'', 1, Km (6371 * pi), 0)"
    and cd: "map ps_distance_km (vc_centers c) = [6371 * pi]"
    by (elim exE conjE)
  have count: "0 < vc_center_count c" using cs by (simp add: coverage_summary_def)
  have far: "\<forall>p \<in> set (vc_centers c). max_distance_km default_analyzer \<le> ps_distance_km p"
  proof
    fix p assume "p \<in> set (vc_centers c)"
    then have "ps_distance_km p \<in> set (map ps_distance_km (vc_centers c))" by simp
    then have "ps_distance_km p = 6371 * pi" unfolding cd by simp
    then show "max_distance_km default_analyzer \<le> ps_distance_km p"
      using antipode_far(1) by (simp add: default_analyzer_def)
  qed
  have v: "vendor_b \<in> set [vendor_b, vendor_c, vendor_a]" by simp
  have "\<exists>c'. analyze_vendor_coverage default_analyzer example_market vendor_b
                 [center_a_near, center_b_far] = Inr c'
            \<and> vc_center_count c'
                = length (filter (owned_by (get_or (vn_vendor_id vendor_b) []))
                    [center_a_near, center_b_far])
            \<and> (c' \<in> set result \<longleftrightarrow> 0 < vc_center_count c')
            \<and> (0 < vc_center_count c' \<and> 0 < max_distance_km default_analyzer
                 \<and> (\<forall>p \<in> set (vc_centers c').
                        max_distance_km default_analyzer \<le> ps_distance_km p)
               \<longrightarrow> vc_coverage_score c' = 0 \<and> c' \<in> set result)"
    by (rule bspec [OF conjunct1 [OF analyze_market_vendors_spec [OF r]] v])
  then have "vc_coverage_score c = 0 \<and> c \<in> set result"
    using c count far by (auto simp: default_analyzer_def)
  then have "c \<in> set result" by simp
  then show ?thesis using r m c cs by (intro exI [of _ result] exI [of _ c] conjI)
qed

section \<open>Claims about the coverage score\<close>

lemma proximity_score_bounds:
  "0 \<le> calculate_proximity_score d M k \<and> calculate_proximity_score d M k \<le> 100"
  by (simp add: calculate_proximity_score_def Let_def)

lemma proximity_score_antimono:
  assumes "d1 \<le> d2"
  shows "calculate_proximity_score d2 M k \<le> calculate_proximity_score d1 M k"
proof (cases "d1 \<le> 0")
  case True
  then have "calculate_proximity_score d1 M k = 100"
    by (simp add: calculate_proximity_score_def)
  then show ?thesis using proximity_score_bounds [of d2 M k] by simp
next
  case d1: False
  show ?thesis
  proof (cases "M \<le> d2")
    case True
    then have "calculate_proximity_score d2 M k = 0"
      using d1 assms by (simp add: calculate_proximity_score_def)
    then show ?thesis using proximity_score_bounds [of d1 M k] by simp
  next
    case False
    then have M: "0 < M" "d1 < M" "d2 < M" "0 < d1" "0 < d2" using d1 assms by simp_all
    have "d1 / M \<le> d2 / M" using assms M by (simp add: divide_right_mono)
    show ?thesis
    proof (cases "0 \<le> k")
      case True
      then have "k * (d1 / M) \<le> k * (d2 / M)"
        using \<open>d1 / M \<le> d2 / M\<close> by (rule mult_left_mono[rotated])
      then have "exp (- k * (d2 / M)) \<le> exp (- k * (d1 / M))" by simp
      then show ?thesis
        using M by (simp add: calculate_proximity_score_def Let_def min_def max_def)
    next
      case False
      then have nk: "0 \<le> - k" by simp
      have q: "0 \<le> d1 / M" "0 \<le> d2 / M" using M by simp_all
      have "0 \<le> - k * (d1 / M)" "0 \<le> - k * (d2 / M)"
        by (rule mult_nonneg_nonneg [OF nk q(1)]) (rule mult_nonneg_nonneg [OF nk q(2)])
      then have "1 \<le> exp (- k * (d1 / M))" "1 \<le> exp (- k * (d2 / M))" by simp_all
      then show ?thesis
        using M by (simp add: calculate_proximity_score_def Let_def min_def max_def)
    qed
  qed
qed

lemma insort_key_snoc_last:
  "f y \<le> f x \<Longrightarrow> insort_key f y (zs @ [x]) = insort_key f y zs @ [x]"
  by (induction zs) simp_all

lemma sort_key_snoc_last:
  "\<forall>y \<in> set xs. f y \<le> f x \<Longrightarrow> sort_key f (xs @ [x]) = sort_key f xs @ [x]"
  by (induction xs) (simp_all add: insort_key_snoc_last)

lemma coverage_weights_Suc:
  "coverage_weights (Suc n) = coverage_weights n @ [1 / (real n + 1)]"
  by (simp add: coverage_weights_def)

lemma coverage_weights_nonneg: "w \<in> set (coverage_weights n) \<Longrightarrow> 0 \<le> w"
  by (auto simp: coverage_weights_def)

lemma coverage_weights_sum_pos: "0 < n \<Longrightarrow> 0 < sum_list (coverage_weights n)"
proof (induction n)
  case 0
  then show ?case by simp
next
  case (Suc n)
  have "0 \<le> sum_list (coverage_weights n)"
    by (rule sum_list_nonneg) (rule coverage_weights_nonneg)
  moreover have "0 < 1 / (real n + 1)" by simp
  ultimately have "0 < sum_list (coverage_weights n) + 1 / (real n + 1)"
    by (rule add_nonneg_pos)
  then show ?case by (simp add: coverage_weights_Suc)
qed

lemma weighted_sum_lower:
  assumes "length xs = length ws"
    and "\<forall>w \<in> set ws. 0 \<le> w"
    and "\<forall>q \<in> set xs. s \<le> ps_proximity_score q"
  shows "s * sum_list ws \<le> sum_list (map (\<lambda>(ps, w). ps_proximity_score ps * w) (zip xs ws))"
  using assms
proof (induction xs ws rule: list_induct2)
  case Nil
  then show ?case by simp
next
  case (Cons x xs w ws)
  have "s * w \<le> ps_proximity_score x * w"
    using Cons.prems by (intro mult_right_mono) simp_all
  moreover have "s * sum_list ws
      \<le> sum_list (map (\<lambda>(ps, w). ps_proximity_score ps * w) (zip xs ws))"
    using Cons.prems by (intro Cons.IH) simp_all
  ultimately show ?case by (simp add: algebra_simps)
qed

lemma weighted_score_snoc_le:
  assumes "xs \<noteq> []" and "\<forall>q \<in> set xs. ps_proximity_score p \<le> ps_proximity_score q"
  shows "weighted_score (xs @ [p]) \<le> weighted_score xs"
proof -
  define n where "n = length xs"
  define W where "W = sum_list (coverage_weights n)"
  define S where "S = sum_list (map (\<lambda>(ps, w). ps_proximity_score ps * w)
                          (zip xs (coverage_weights n)))"
  define w where "w = 1 / (real n + 1)"
  define s where "s = ps_proximity_score p"
  have len: "length xs = length (coverage_weights n)" by (simp add: n_def coverage_weights_def)
  have W: "0 < W" unfolding W_def using assms(1) by (intro coverage_weights_sum_pos) (simp add: n_def)
  have w: "0 < w" by (simp add: w_def)
  have old: "weighted_score xs = S / W"
    by (simp add: weighted_score_def Let_def py_sum_eq S_def W_def n_def)
  have "zip (xs @ [p]) (coverage_weights n @ [w]) = zip xs (coverage_weights n) @ [(p, w)]"
    using len by simp
  then have new: "weighted_score (xs @ [p]) = (S + s * w) / (W + w)"
    by (simp add: weighted_score_def Let_def py_sum_eq S_def W_def n_def [symmetric]
        coverage_weights_Suc w_def [symmetric] s_def)
  have sW: "s * W \<le> S"
    unfolding W_def S_def s_def
    using len assms(2) coverage_weights_nonneg by (intro weighted_sum_lower) auto
  then have "s * W * w \<le> S * w" using w by (intro mult_right_mono) simp_all
  then have "(S + s * w) * W \<le> S * (W + w)" by (simp add: algebra_simps)
  then have "(S + s * w) / (W + w) \<le> S / W"
    using W w by (simp add: field_simps)
  then show ?thesis by (simp add: old new)
qed

lemma weighted_score_formula:
  "weighted_score xs =
     (\<Sum>i = 0..<length xs. ps_proximity_score (xs ! i) * (1 / (real i + 1)))
       / (\<Sum>i = 0..<length xs. 1 / (real i + 1))"
proof -
  let ?n = "length xs"
  let ?f = "\<lambda>i. 1 / (real i + 1)"
  have "zip xs (coverage_weights ?n) = zip (map (nth xs) [0..<?n]) (map ?f [0..<?n])"
    by (simp add: map_nth coverage_weights_def)
  also have "\<dots> = map (\<lambda>i. (xs ! i, ?f i)) [0..<?n]"
    by (simp add: zip_map_map zip_same_conv_map)
  finally have z: "zip xs (coverage_weights ?n) = map (\<lambda>i. (xs ! i, ?f i)) [0..<?n]" .
  have num: "sum_list (map (\<lambda>(ps, w). ps_proximity_score ps * w) (zip xs (coverage_weights ?n)))
        = (\<Sum>i = 0..<?n. ps_proximity_score (xs ! i) * ?f i)"
    unfolding z by (simp add: comp_def interv_sum_list_conv_sum_set_nat)
  have den: "sum_list (coverage_weights ?n) = (\<Sum>i = 0..<?n. ?f i)"
    by (simp add: coverage_weights_def interv_sum_list_conv_sum_set_nat)
  show ?thesis
    unfolding weighted_score_def Let_def py_sum_eq num den ..
qed

lemma collect_proximity_scores_snoc:
  assumes "owned_by vid dc"
  shows "collect_proximity_scores self mlat mlon mid vid vname (dcs @ [dc]) = Inr scores' \<longleftrightarrow>
     (\<exists>scores p. collect_proximity_scores self mlat mlon mid vid vname dcs = Inr scores
        \<and> calculate_proximity self mlat mlon (get_or (dc_latitude dc) 0)
            (get_or (dc_longitude dc) 0) vid vname (get_or (dc_center_id dc) [])
            (get_or (dc_center_name dc) []) (Some mid) = Inr p
        \<and> scores' = scores @ [p])"
proof (induction dcs arbitrary: scores')
  case Nil
  then show ?case using assms by (auto simp: owned_by_def bind_err_Inr_iff)
next
  case (Cons d dcs)
  show ?case
  proof (cases "dc_vendor_id d \<noteq> Some vid")
    case True
    then show ?thesis using Cons.IH by simp
  next
    case False
    then show ?thesis
      by (simp add: bind_err_Inr_iff Cons.IH) (metis append_Cons)
  qed
qed

text \<open>
  C1, as stated, fails in its second half: for vendor \<open>V-A\<close> and the market at \<open>(0, 0)\<close>,
  the center at the market alone gives the coverage score 100, and adding the center at
  the antipode (the nearest distance stays 0) lowers the score to \<open>200 / 3\<close>.
\<close>

theorem coverage_lowered_by_added_center:
  "map_sum id coverage_summary
     (analyze_vendor_coverage default_analyzer example_market vendor_a [center_a_near])
     = Inr (''V-A'', 1, Km 0, 100)
   \<and> map_sum id coverage_summary
     (analyze_vendor_coverage default_analyzer example_market vendor_a
        [center_a_near, center_a_far])
     = Inr (''V-A'', 2, Km 0, 200 / 3)
   \<and> (200 / 3 :: real) < 100"
  using coverage_a_one coverage_a_both by simp

text \<open>
  C1, amended: when \<open>analyze_vendor_coverage\<close> returns with a positive \<open>center_count\<close>, its
  centers are the proximity scores of the vendor's distribution centers sorted
  nearest-first, and \<open>coverage_score\<close> is their weighted average with weight
  \<open>1 / (i + 1)\<close> for the \<open>i\<close>-th nearest center (0-indexed), normalized by the sum of the
  weights. A further center does not raise the score in general: one that is at least as
  far as every center of the set never raises it.
\<close>

theorem coverage_score_spec:
  assumes c: "analyze_vendor_coverage self market vendor dcs = Inr c"
    and pos: "0 < vc_center_count c"
  shows "vc_center_count c = length (filter (owned_by (get_or (vn_vendor_id vendor) [])) dcs)
       \<and> length (vc_centers c) = vc_center_count c
       \<and> sorted (map ps_distance_km (vc_centers c))
       \<and> vc_coverage_score c =
           (\<Sum>i = 0..<vc_center_count c.
               ps_proximity_score (vc_centers c ! i) * (1 / (real i + 1)))
             / (\<Sum>i = 0..<vc_center_count c. 1 / (real i + 1))
       \<and> (owned_by (get_or (vn_vendor_id vendor) []) dc
            \<and> haversine_distance (get_or (mk_latitude market) 0) (get_or (mk_longitude market) 0)
                  (get_or (dc_latitude dc) 0) (get_or (dc_longitude dc) 0) = Inr d
            \<and> (\<forall>p \<in> set (vc_centers c). ps_distance_km p \<le> d)
            \<and> analyze_vendor_coverage self market vendor (dcs @ [dc]) = Inr c'
          \<longrightarrow> vc_coverage_score c' \<le> vc_coverage_score c)"
proof -
  let ?mlat = "get_or (mk_latitude market) 0"
  let ?mlon = "get_or (mk_longitude market) 0"
  let ?mid = "get_or (mk_market_id market) []"
  let ?vid = "get_or (vn_vendor_id vendor) []"
  let ?vname = "get_or (vn_vendor_name vendor) []"
  let ?M = "max_distance_km self"
  let ?k = "decay_factor self"
  from analyze_vendor_coverage_Inr [OF c] obtain scores where
    sc: "collect_proximity_scores self ?mlat ?mlon ?mid ?vid ?vname dcs = Inr scores"
    and centers: "vc_centers c = sort_key ps_distance_km scores"
    and count: "vc_center_count c = length scores"
    and score: "vc_coverage_score c
                  = (if scores = [] then 0 else weighted_score (sort_key ps_distance_km scores))"
    by (elim exE conjE)
  have ne: "scores \<noteq> []" using pos count by simp
  have score': "vc_coverage_score c = weighted_score (vc_centers c)"
    using score ne centers by simp
  have p1: "vc_center_count c = length (filter (owned_by ?vid) dcs)"
    using collect_proximity_scores_length [OF sc] count by simp
  have p2: "length (vc_centers c) = vc_center_count c"
    by (simp add: centers count)
  have p3: "sorted (map ps_distance_km (vc_centers c))"
    by (simp add: centers)
  have p4: "vc_coverage_score c =
           (\<Sum>i = 0..<vc_center_count c.
               ps_proximity_score (vc_centers c ! i) * (1 / (real i + 1)))
             / (\<Sum>i = 0..<vc_center_count c. 1 / (real i + 1))"
    unfolding score' p2 [symmetric] by (rule weighted_score_formula)
  have p5: "vc_coverage_score c' \<le> vc_coverage_score c"
    if own: "owned_by ?vid dc"
      and hd: "haversine_distance ?mlat ?mlon (get_or (dc_latitude dc) 0)
                 (get_or (dc_longitude dc) 0) = Inr d"
      and far: "\<forall>p \<in> set (vc_centers c). ps_distance_km p \<le> d"
      and c': "analyze_vendor_coverage self market vendor (dcs @ [dc]) = Inr c'"
  proof -
    from analyze_vendor_coverage_Inr [OF c'] obtain scores' where
      sc': "collect_proximity_scores self ?mlat ?mlon ?mid ?vid ?vname (dcs @ [dc]) = Inr scores'"
      and score_c': "vc_coverage_score c'
            = (if scores' = [] then 0 else weighted_score (sort_key ps_distance_km scores'))"
      by (elim exE conjE)
    from sc' have "\<exists>scores0 p.
        collect_proximity_scores self ?mlat ?mlon ?mid ?vid ?vname dcs = Inr scores0
        \<and> calculate_proximity self ?mlat ?mlon (get_or (dc_latitude dc) 0)
            (get_or (dc_longitude dc) 0) ?vid ?vname (get_or (dc_center_id dc) [])
            (get_or (dc_center_name dc) []) (Some ?mid) = Inr p
        \<and> scores' = scores0 @ [p]"
      by (simp only: collect_proximity_scores_snoc [OF own])
    then obtain scores0 p where
      sc0: "collect_proximity_scores self ?mlat ?mlon ?mid ?vid ?vname dcs = Inr scores0"
      and p: "calculate_proximity self ?mlat ?mlon (get_or (dc_latitude dc) 0)
            (get_or (dc_longitude dc) 0) ?vid ?vname (get_or (dc_center_id dc) [])
            (get_or (dc_center_name dc) []) (Some ?mid) = Inr p"
      and snoc: "scores' = scores0 @ [p]"
      by (elim exE conjE)
    have same: "scores0 = scores" using sc sc0 by simp
    have pd: "ps_distance_km p = d"
      using calculate_proximity_fields [OF p] hd by simp
    have pscore: "ps_proximity_score p = calculate_proximity_score d ?M ?k"
      using calculate_proximity_fields [OF p] pd by simp
    have le: "\<forall>q \<in> set scores. ps_distance_km q \<le> ps_distance_km p"
      using far by (simp add: centers pd)
    have sorted': "sort_key ps_distance_km scores' = vc_centers c @ [p]"
      unfolding snoc same centers by (rule sort_key_snoc_last [OF le])
    have lower: "\<forall>q \<in> set (vc_centers c). ps_proximity_score p \<le> ps_proximity_score q"
    proof
      fix q assume q: "q \<in> set (vc_centers c)"
      then have qs: "q \<in> set scores" by (simp add: centers)
      have "ps_proximity_score q = calculate_proximity_score (ps_distance_km q) ?M ?k"
        using collect_proximity_scores_score [OF sc qs] by simp
      moreover have "ps_distance_km q \<le> d" using far q by simp
      ultimately show "ps_proximity_score p \<le> ps_proximity_score q"
        using proximity_score_antimono [of "ps_distance_km q" d ?M ?k] pscore by simp
    qed
    have "vc_centers c \<noteq> []" using ne by (cases scores) (simp_all add: centers)
    then have "weighted_score (vc_centers c @ [p]) \<le> weighted_score (vc_centers c)"
      using lower by (rule weighted_score_snoc_le)
    moreover have "scores' \<noteq> []" by (simp add: snoc)
    then have "vc_coverage_score c' = weighted_score (vc_centers c @ [p])"
      using score_c' by (simp only: sorted' if_False)
    ultimately show ?thesis by (simp only: score')
  qed
  show ?thesis
  proof (intro conjI impI)
    assume "owned_by ?vid dc
            \<and> haversine_distance ?mlat ?mlon
                  (get_or (dc_latitude dc) 0) (get_or (dc_longitude dc) 0) = Inr d
            \<and> (\<forall>p \<in> set (vc_centers c). ps_distance_km p \<le> d)
            \<and> analyze_vendor_coverage self market vendor (dcs @ [dc]) = Inr c'"
    then show "vc_coverage_score c' \<le> vc_coverage_score c"
      by (elim conjE) (rule p5; assumption)
  qed (rule p1 p2 p3 p4)+
qed

lemma coverage_a_one_centers:
  "\<exists>c. analyze_vendor_coverage default_analyzer example_market vendor_a [center_a_near] = Inr c
     \<and> coverage_summary c = (''V-A'', 1, Km 0, 100)
     \<and> map ps_distance_km (vc_centers c) = [0]"
  by (simp add: coverage_eval)

lemma coverage_a_both_centers:
  "\<exists>c. analyze_vendor_coverage default_analyzer example_market vendor_a
         ([center_a_near] @ [center_a_far]) = Inr c
     \<and> coverage_summary c = (''V-A'', 2, Km 0, 200 / 3)"
  by (simp add: coverage_eval)

theorem coverage_score_spec_witness:
  "\<exists>c c'.
     analyze_vendor_coverage default_analyzer example_market vendor_a [center_a_near] = Inr c
     \<and> coverage_summary c = (''V-A'', 1, Km 0, 100)
     \<and> owned_by ''V-A'' center_a_far
     \<and> haversine_distance 0 0 0 180 = Inr (6371 * pi)
     \<and> analyze_vendor_coverage default_analyzer example_market vendor_a
         ([center_a_near] @ [center_a_far]) = Inr c'
     \<and> coverage_summary c' = (''V-A'', 2, Km 0, 200 / 3)
     \<and> vc_coverage_score c =
           (\<Sum>i = 0..<vc_center_count c.
               ps_proximity_score (vc_centers c ! i) * (1 / (real i + 1)))
             / (\<Sum>i = 0..<vc_center_count c. 1 / (real i + 1))
     \<and> vc_coverage_score c' \<le> vc_coverage_score c"
proof -
  from coverage_a_one_centers obtain c where
    c: "analyze_vendor_coverage default_analyzer example_market vendor_a [center_a_near] = Inr c"
    and cs: "coverage_summary c = (''V-A'', 1, Km 0, 100)"
    and cd: "map ps_distance_km (vc_centers c) = [0]"
    by (elim exE conjE)
  from coverage_a_both_centers obtain c' where
    c': "analyze_vendor_coverage default_analyzer example_market vendor_a
           ([center_a_near] @ [center_a_far]) = Inr c'"
    and cs': "coverage_summary c' = (''V-A'', 2, Km 0, 200 / 3)"
    by (elim exE conjE)
  have pos: "0 < vc_center_count c" using cs by (simp add: coverage_summary_def)
  have own: "owned_by ''V-A'' center_a_far"
    by (simp add: owned_by_def center_a_far_def)
  have far: "\<forall>p \<in> set (vc_centers c). ps_distance_km p \<le> 6371 * pi"
  proof
    fix p assume "p \<in> set (vc_centers c)"
    then have "ps_distance_km p \<in> set (map ps_distance_km (vc_centers c))" by simp
    then have "ps_distance_km p = 0" unfolding cd by simp
    then show "ps_distance_km p \<le> 6371 * pi" by simp
  qed
  note spec = coverage_score_spec [OF c pos, of center_a_far "6371 * pi" c']
  have formula: "vc_coverage_score c =
           (\<Sum>i = 0..<vc_center_count c.
               ps_proximity_score (vc_centers c ! i) * (1 / (real i + 1)))
             / (\<Sum>i = 0..<vc_center_count c. 1 / (real i + 1))"
    using spec by (elim conjE)
  have imp: "owned_by (get_or (vn_vendor_id vendor_a) []) center_a_far
            \<and> haversine_distance (get_or (mk_latitude example_market) 0)
                  (get_or (mk_longitude example_market) 0)
                  (get_or (dc_latitude center_a_far) 0) (get_or (dc_longitude center_a_far) 0)
                = Inr (6371 * pi)
            \<and> (\<forall>p \<in> set (vc_centers c). ps_distance_km p \<le> 6371 * pi)
            \<and> analyze_vendor_coverage default_analyzer example_market vendor_a
                  ([center_a_near] @ [center_a_far]) = Inr c'
          \<longrightarrow> vc_coverage_score c' \<le> vc_coverage_score c"
    using spec by (elim conjE)
  have h1: "owned_by (get_or (vn_vendor_id vendor_a) []) center_a_far"
    by (simp add: get_or_def vendor_a_def owned_by_def center_a_far_def)
  have h2: "haversine_distance (get_or (mk_latitude example_market) 0)
                  (get_or (mk_longitude example_market) 0)
                  (get_or (dc_latitude center_a_far) 0) (get_or (dc_longitude center_a_far) 0)
                = Inr (6371 * pi)"
    by (simp add: get_or_def example_market_def center_a_far_def haversine_antipodal)
  have "vc_coverage_score c' \<le> vc_coverage_score c"
    by (rule mp [OF imp]) (intro conjI h1 h2 far c')
  then show ?thesis
    using c cs own haversine_antipodal c' cs' formula
    by (intro exI [of _ c] exI [of _ c'] conjI)
qed

section \<open>Claims about invalid coordinates and distances\<close>

text \<open>
  C3, amended: out-of-range coordinates and negative distances are not reported as
  errors, the code has no \<open>InvalidCoordinate\<close> or \<open>InvalidDistance\<close>. A negative distance
  is clamped: \<open>calculate_proximity_score\<close> returns exactly 100 and \<open>estimate_travel_time\<close>
  exactly 0. For coordinates that \<open>Coordinate.validate\<close> rejects, \<open>calculate_proximity\<close>
  still returns the \<open>ProximityScore\<close> built from the haversine distance, and
  \<open>analyze_vendor_coverage\<close> the coverage built from the collected scores, whenever the
  distance and travel-time computations themselves return.
\<close>

theorem invalid_input_accepted:
  "(d < 0 \<longrightarrow> calculate_proximity_score d M k = 100 \<and> estimate_travel_time d v = Inr 0)
   \<and> ((\<not> validate \<lparr>latitude = mlat, longitude = mlon\<rparr>
          \<or> \<not> validate \<lparr>latitude = clat, longitude = clon\<rparr>)
        \<and> haversine_distance mlat mlon clat clon = Inr km
        \<and> estimate_travel_time km (average_speed_kmh self) = Inr t
      \<longrightarrow> calculate_proximity self mlat mlon clat clon vid vname cid cname mid
            = Inr \<lparr>ps_vendor_id = vid, ps_vendor_name = vname, ps_center_id = cid,
                   ps_center_name = cname, ps_market_id = mid, ps_distance_km = km,
                   ps_proximity_score =
                     calculate_proximity_score km (max_distance_km self) (decay_factor self),
                   ps_travel_time_estimate_hours = Some t,
                   ps_shipping_cost_factor = Some (calculate_shipping_cost_factor km 0.005 1)\<rparr>)
   \<and> (\<not> validate \<lparr>latitude = get_or (mk_latitude market) 0,
                      longitude = get_or (mk_longitude market) 0\<rparr>
        \<and> collect_proximity_scores self (get_or (mk_latitude market) 0)
              (get_or (mk_longitude market) 0) (get_or (mk_market_id market) [])
              (get_or (vn_vendor_id vendor) []) (get_or (vn_vendor_name vendor) []) dcs
            = Inr scores
      \<longrightarrow> (\<exists>c. analyze_vendor_coverage self market vendor dcs = Inr c
             \<and> vc_centers c = sort_key ps_distance_km scores
             \<and> vc_center_count c = length scores))"
proof (intro conjI impI)
  assume "d < 0"
  then show "calculate_proximity_score d M k = 100"
    by (simp add: calculate_proximity_score_def)
  from \<open>d < 0\<close> show "estimate_travel_time d v = Inr 0"
    by (simp add: estimate_travel_time_def)
next
  assume "(\<not> validate \<lparr>latitude = mlat, longitude = mlon\<rparr>
          \<or> \<not> validate \<lparr>latitude = clat, longitude = clon\<rparr>)
        \<and> haversine_distance mlat mlon clat clon = Inr km
        \<and> estimate_travel_time km (average_speed_kmh self) = Inr t"
  then show "calculate_proximity self mlat mlon clat clon vid vname cid cname mid
            = Inr \<lparr>ps_vendor_id = vid, ps_vendor_name = vname, ps_center_id = cid,
                   ps_center_name = cname, ps_market_id = mid, ps_distance_km = km,
                   ps_proximity_score =
                     calculate_proximity_score km (max_distance_km self) (decay_factor self),
                   ps_travel_time_estimate_hours = Some t,
                   ps_shipping_cost_factor = Some (calculate_shipping_cost_factor km 0.005 1)\<rparr>"
    by (simp add: calculate_proximity_def bind_err_def Let_def)
next
  assume h: "\<not> validate \<lparr>latitude = get_or (mk_latitude market) 0,
                      longitude = get_or (mk_longitude market) 0\<rparr>
        \<and> collect_proximity_scores self (get_or (mk_latitude market) 0)
              (get_or (mk_longitude market) 0) (get_or (mk_market_id market) [])
              (get_or (vn_vendor_id vendor) []) (get_or (vn_vendor_name vendor) []) dcs
            = Inr scores"
  have "\<exists>c. coverage_of_scores (get_or (vn_vendor_id vendor) [])
               (get_or (vn_vendor_name vendor) []) (get_or (mk_market_id market) [])
               (get_or (mk_region_name market) []) scores = Inr c"
    by (rule coverage_of_scores_returns)
  then obtain c where
    cv: "coverage_of_scores (get_or (vn_vendor_id vendor) [])
               (get_or (vn_vendor_name vendor) []) (get_or (mk_market_id market) [])
               (get_or (mk_region_name market) []) scores = Inr c"
    by (elim exE)
  have ret: "analyze_vendor_coverage self market vendor dcs = Inr c"
    unfolding analyze_vendor_coverage_def Let_def
    using h cv by (simp only: bind_err_def sum.case)
  note f = coverage_of_scores_Inr [OF cv]
  show "\<exists>c. analyze_vendor_coverage self market vendor dcs = Inr c
             \<and> vc_centers c = sort_key ps_distance_km scores
             \<and> vc_center_count c = length scores"
    by (rule exI [of _ c]) (intro conjI ret f [THEN conjunct1] f [THEN conjunct2, THEN conjunct1])
qed

lemma collect_out_of_range:
  "collect_proximity_scores default_analyzer 91 0 ''M-X'' ''V-A'' ''A'' [center_out_of_range]
     = Inr [out_of_range_score]"
  by (simp add: center_out_of_range_def out_of_range_score_def calculate_proximity_def
      haversine_same_point bind_err_def Let_def get_or_def calculate_proximity_score_def
      estimate_travel_time_def calculate_shipping_cost_factor_def default_analyzer_def)

theorem invalid_input_accepted_witness:
  "(-1::real) < 0
   \<and> calculate_proximity_score (-1) 500 2 = 100 \<and> estimate_travel_time (-1) 60 = Inr 0
   \<and> \<not> validate \<lparr>latitude = 91, longitude = 0\<rparr>
   \<and> haversine_distance 91 0 91 0 = Inr 0
   \<and> estimate_travel_time 0 (average_speed_kmh default_analyzer) = Inr 0
   \<and> calculate_proximity default_analyzer 91 0 91 0 ''V-A'' ''A'' ''DC-X'' ''Nowhere''
        (Some ''M-X'') = Inr out_of_range_score
   \<and> collect_proximity_scores default_analyzer 91 0 ''M-X'' ''V-A'' ''A''
        [center_out_of_range] = Inr [out_of_range_score]
   \<and> (\<exists>c. analyze_vendor_coverage default_analyzer market_out_of_range vendor_a
              [center_out_of_range] = Inr c
          \<and> vc_centers c = [out_of_range_score] \<and> vc_center_count c = 1)"
proof -
  note spec = invalid_input_accepted [where d = "-1" and M = 500 and k = 2 and v = 60
      and mlat = 91 and mlon = 0 and clat = 91 and clon = 0 and km = 0 and t = 0
      and self = default_analyzer and vid = "''V-A''" and vname = "''A''"
      and cid = "''DC-X''" and cname = "''Nowhere''" and mid = "Some ''M-X''"
      and market = market_out_of_range and vendor = vendor_a
      and dcs = "[center_out_of_range]" and scores = "[out_of_range_score]"]
  have neg: "(-1::real) < 0" by simp
  have inv: "\<not> validate \<lparr>latitude = 91, longitude = 0\<rparr>" by (simp add: validate_def)
  have hav: "haversine_distance 91 0 91 0 = Inr 0" by (rule haversine_same_point)
  have tt: "estimate_travel_time 0 (average_speed_kmh default_analyzer) = Inr 0"
    by (simp add: estimate_travel_time_def)
  have c1: "calculate_proximity_score (-1) 500 2 = 100 \<and> estimate_travel_time (-1) 60 = Inr 0"
    using spec [THEN conjunct1] neg by simp
  have c2: "calculate_proximity default_analyzer 91 0 91 0 ''V-A'' ''A'' ''DC-X'' ''Nowhere''
        (Some ''M-X'') = Inr out_of_range_score"
    using spec [THEN conjunct2, THEN conjunct1] inv hav tt
    by (simp add: out_of_range_score_def calculate_proximity_score_def
        calculate_shipping_cost_factor_def default_analyzer_def)
  have c3: "\<exists>c. analyze_vendor_coverage default_analyzer market_out_of_range vendor_a
              [center_out_of_range] = Inr c
          \<and> vc_centers c = [out_of_range_score] \<and> vc_center_count c = 1"
    using spec [THEN conjunct2, THEN conjunct2] inv collect_out_of_range
    by (simp add: market_out_of_range_def vendor_a_def get_or_def)
  show ?thesis
    using neg c1 inv hav tt c2 collect_out_of_range c3 by (intro conjI) simp_all
qed

end
